theory Spec2Isabelle
  imports Complex_Main "HOL-Library.Word" "HOL-Library.Signed_Division"
begin

section \<open>Shared collaborators of the two game screens\<close>

text \<open>
  The firmware's two motion-controlled games, \<^verbatim>\<open>PongGame\<close> and \<^verbatim>\<open>BirdDodger\<close>, are
  embedded function by function. Conventions of the embedding:

  \<^item> C++ \<^verbatim>\<open>float\<close> fields and expressions are idealised as \<open>real\<close>: rounding is not
    modelled, comparisons and arithmetic are exact.
  \<^item> C++ \<^verbatim>\<open>int\<close> fields (\<^verbatim>\<open>score\<close>, \<^verbatim>\<open>frameCounter\<close>, \<^verbatim>\<open>lastDifficultyScore\<close>) are
    \<open>int\<close>. Signed overflow is undefined behaviour in C++; it would take \<open>2 ^ 31\<close> scoring
    events or ticks (more than a year of play at 60 ticks per second), and the
    embedding describes the executions below that bound.
  \<^item> \<^verbatim>\<open>esp_random()\<close> is the ESP-IDF hardware generator,
    \<^verbatim>\<open>uint32_t esp_random(void)\<close>; each call's result is an input of type \<open>32 word\<close>, and
    the arithmetic the source does on it is unsigned 32-bit arithmetic, as the usual
    arithmetic conversions of C++ make it.
  \<^item> \<^verbatim>\<open>imu->getSample()\<close> is an input: the accelerometer component the function reads.
  \<^item> \<^verbatim>\<open>queue.get(event, 0)\<close> is an input: \<open>None\<close> when the queue is empty.
  \<^item> \<^verbatim>\<open>audio->play(...)\<close> appends the cue to a log, in call order.
  \<^item> the \<^verbatim>\<open>%\<close> of C++ on \<^verbatim>\<open>int\<close> truncates towards zero: it is \<open>smod\<close>.
  \<^item> of the user interface the state keeps the \<^verbatim>\<open>LV_OBJ_FLAG_HIDDEN\<close> flag of the bird
    objects; the other LVGL calls, the sleep service and the subscription of the
    event queue are outside the state.
  \<^item> each member function runs to completion: the interleaving of the game thread
    with the UI thread inside one call is not modelled.
\<close>

type_synonym u32 = "32 word"

text \<open>\<^verbatim>\<open>Devices/Input.h\<close> and \<^verbatim>\<open>Util/Events.h\<close>, as the architecture notes declare them.\<close>

datatype Button = Up | Down | Select | Alt

datatype Action = Release | Press

datatype Facility = Input | Phone | Battery | Sleep

record InputData =
  btn :: Button
  action :: Action

text \<open>
  \<^verbatim>\<open>Event::data\<close> is a \<^verbatim>\<open>void*\<close> that both screens read as \<^verbatim>\<open>Input::Data*\<close> only when the
  facility is \<^verbatim>\<open>Facility::Input\<close>; for any other facility the payload is never read.
\<close>

record Event =
  facility :: Facility
  data :: InputData

text \<open>The two cues the games play: \<^verbatim>\<open>playHitSound\<close> and \<^verbatim>\<open>playMissSound\<close>.\<close>

datatype Cue = HitSound | MissSound

text \<open>
  Modelled from the spec: the filter class \<^verbatim>\<open>EMA\<close> of \<^verbatim>\<open>Util/EMA.h\<close>, which is not among
  the sources. The spec gives it a filtered value \<open>current\<close> and a coefficient
  \<open>strength\<close> fixed at construction; \<open>reset(sample)\<close> sets \<open>current = sample\<close>;
  \<open>update(sample)\<close> applies \<open>current = current*(1-strength) + sample*strength\<close> and
  returns the new \<open>current\<close>; the default before any reset is zero.
\<close>

record EMA =
  current :: real
  strength :: real

definition EMA_new :: "real \<Rightarrow> EMA" where
  "EMA_new a = \<lparr>current = 0, strength = a\<rparr>"

definition EMA_reset :: "real \<Rightarrow> EMA \<Rightarrow> EMA" where
  "EMA_reset sample f = f\<lparr>current := sample\<rparr>"

definition EMA_update :: "real \<Rightarrow> EMA \<Rightarrow> real \<times> EMA" where
  "EMA_update sample f =
     (let c = current f * (1 - strength f) + sample * strength f
      in (c, f\<lparr>current := c\<rparr>))"

text \<open>\<^verbatim>\<open>std::clamp(v, lo, hi)\<close>: \<open>lo\<close> if \<open>v < lo\<close>, \<open>hi\<close> if \<open>hi < v\<close>, otherwise \<open>v\<close>.\<close>

definition clamp :: "real \<Rightarrow> real \<Rightarrow> real \<Rightarrow> real" where
  "clamp v lo hi = (if v < lo then lo else if hi < v then hi else v)"

definition filterStrength :: real where
  "filterStrength = 15 / 100"

definition SCREEN_WIDTH :: int where
  "SCREEN_WIDTH = 128"

definition SCREEN_HEIGHT :: int where
  "SCREEN_HEIGHT = 128"


section \<open>PongGame\<close>

definition BALL_SIZE :: int where
  "BALL_SIZE = 4"

definition PADDLE_WIDTH :: int where
  "PADDLE_WIDTH = 4"

definition PADDLE_HEIGHT :: int where
  "PADDLE_HEIGHT = 24"

definition BALL_SPEED :: real where
  "BALL_SPEED = 15 / 10"

definition PADDLE_SPEED :: real where
  "PADDLE_SPEED = 2 / 100"

text \<open>The anonymous struct \<^verbatim>\<open>ballState\<close>: position and velocity of the ball.\<close>

record BallState =
  ball_x :: real
  ball_y :: real
  ball_vx :: real
  ball_vy :: real

text \<open>
  The game state of \<^verbatim>\<open>PongGame\<close>. \<open>audio\<close> is the log of cues played so far and
  \<open>transitionRequested\<close> records the call \<^verbatim>\<open>transition(...)\<close> to the main menu.
\<close>

record PongGame =
  ballState :: BallState
  paddleY :: real
  score :: int
  gameOver :: bool
  pitchFilter :: EMA
  running :: bool
  audio :: "Cue list"
  transitionRequested :: bool

definition PongGame_playHitSound :: "PongGame \<Rightarrow> PongGame" where
  "PongGame_playHitSound s = s\<lparr>PongGame.audio := PongGame.audio s @ [HitSound]\<rparr>"

definition PongGame_playMissSound :: "PongGame \<Rightarrow> PongGame" where
  "PongGame_playMissSound s = s\<lparr>PongGame.audio := PongGame.audio s @ [MissSound]\<rparr>"

text \<open>
  \<^verbatim>\<open>float angle = (esp_random() % 90 - 45) * M_PI / 180.0f;\<close>
  The operand \<^verbatim>\<open>esp_random() % 90\<close> is unsigned, so \<^verbatim>\<open>- 45\<close> is an unsigned subtraction
  that wraps around below 45; the product with \<^verbatim>\<open>M_PI\<close> converts the unsigned value.
\<close>

definition resetBall_angle :: "u32 \<Rightarrow> real" where
  "resetBall_angle r = real (unat (r mod 90 - 45)) * pi / 180"

definition PongGame_resetBall :: "u32 \<Rightarrow> PongGame \<Rightarrow> PongGame" where
  "PongGame_resetBall r s =
     s\<lparr>ballState :=
         \<lparr>ball_x = real_of_int (SCREEN_WIDTH div 2),
          ball_y = real_of_int (SCREEN_HEIGHT div 2),
          ball_vx = BALL_SPEED * cos (resetBall_angle r),
          ball_vy = BALL_SPEED * sin (resetBall_angle r)\<rparr>\<rparr>"

text \<open>The constructor: member initialisers, then \<^verbatim>\<open>resetBall()\<close>.\<close>

definition PongGame_new :: "u32 \<Rightarrow> PongGame" where
  "PongGame_new r =
     PongGame_resetBall r
       \<lparr>ballState = \<lparr>ball_x = 0, ball_y = 0, ball_vx = 0, ball_vy = 0\<rparr>,
        paddleY = 1 / 2,
        score = 0,
        gameOver = False,
        pitchFilter = EMA_new filterStrength,
        running = False,
        audio = [],
        transitionRequested = False\<rparr>"

text \<open>\<^verbatim>\<open>onStart\<close>: the filter is reset to the sample just read, the game thread starts.\<close>

definition PongGame_onStart :: "real \<Rightarrow> PongGame \<Rightarrow> PongGame" where
  "PongGame_onStart accelY s =
     s\<lparr>pitchFilter := EMA_reset accelY (pitchFilter s), PongGame.running := True\<rparr>"

definition PongGame_onStop :: "PongGame \<Rightarrow> PongGame" where
  "PongGame_onStop s = s\<lparr>PongGame.running := False\<rparr>"

text \<open>The three checks of \<^verbatim>\<open>checkCollisions\<close>, in source order.\<close>

definition checkWalls :: "PongGame \<Rightarrow> PongGame" where
  "checkWalls s =
     (let b = ballState s in
      if ball_y b \<le> 0 \<or> ball_y b \<ge> real_of_int (SCREEN_HEIGHT - BALL_SIZE)
      then PongGame_playHitSound (s\<lparr>ballState := b\<lparr>ball_vy := - ball_vy b\<rparr>\<rparr>)
      else s)"

definition checkPaddle :: "PongGame \<Rightarrow> PongGame" where
  "checkPaddle s =
     (let b = ballState s in
      if ball_x b \<le> real_of_int PADDLE_WIDTH then
        (let paddleTop = paddleY s * real_of_int (SCREEN_HEIGHT - PADDLE_HEIGHT);
             paddleBottom = paddleTop + real_of_int PADDLE_HEIGHT
         in if ball_y b \<ge> paddleTop \<and> ball_y b \<le> paddleBottom then
              (let hitPos = (ball_y b - paddleTop) / real_of_int PADDLE_HEIGHT
               in PongGame_playHitSound
                    (s\<lparr>ballState :=
                         b\<lparr>ball_vx := - ball_vx b,
                           ball_x := real_of_int PADDLE_WIDTH,
                           ball_vy := ball_vy b + (hitPos - 1 / 2) * (1 / 2)\<rparr>,
                       PongGame.score := PongGame.score s + 1\<rparr>))
            else if ball_x b \<le> 0 then
              PongGame_playMissSound (s\<lparr>PongGame.gameOver := True\<rparr>)
            else s)
      else s)"

definition checkRightWall :: "PongGame \<Rightarrow> PongGame" where
  "checkRightWall s =
     (let b = ballState s in
      if ball_x b \<ge> real_of_int (SCREEN_WIDTH - BALL_SIZE)
      then PongGame_playHitSound
             (s\<lparr>ballState :=
                  b\<lparr>ball_vx := - ball_vx b,
                    ball_x := real_of_int (SCREEN_WIDTH - BALL_SIZE)\<rparr>\<rparr>)
      else s)"

definition PongGame_checkCollisions :: "PongGame \<Rightarrow> PongGame" where
  "PongGame_checkCollisions s = checkRightWall (checkPaddle (checkWalls s))"

text \<open>The Euler step at the head of \<^verbatim>\<open>updateGame\<close>.\<close>

definition moveBall :: "PongGame \<Rightarrow> PongGame" where
  "moveBall s =
     (let b = ballState s
      in s\<lparr>ballState := b\<lparr>ball_x := ball_x b + ball_vx b, ball_y := ball_y b + ball_vy b\<rparr>\<rparr>)"

text \<open>The paddle update at the tail of \<^verbatim>\<open>updateGame\<close>, from the sample \<open>accelY\<close>.\<close>

definition updatePaddle :: "real \<Rightarrow> PongGame \<Rightarrow> PongGame" where
  "updatePaddle accelY s =
     (let (pitch, f) = EMA_update accelY (pitchFilter s);
          targetY = clamp ((pitch + 3 / 10) / (6 / 10)) 0 1;
          p = paddleY s + (targetY - paddleY s) * PADDLE_SPEED
      in s\<lparr>pitchFilter := f, paddleY := clamp p 0 1\<rparr>)"

definition PongGame_updateGame :: "real \<Rightarrow> PongGame \<Rightarrow> PongGame" where
  "PongGame_updateGame accelY s =
     (if PongGame.gameOver s then s
      else updatePaddle accelY (PongGame_checkCollisions (moveBall s)))"

text \<open>
  \<^verbatim>\<open>handleInput\<close>: \<open>ev\<close> is what \<^verbatim>\<open>queue.get(event, 0)\<close> yields, \<open>r\<close> the value
  \<^verbatim>\<open>esp_random()\<close> returns if \<^verbatim>\<open>resetBall()\<close> is reached.
\<close>

definition PongGame_handleInput :: "u32 \<Rightarrow> Event option \<Rightarrow> PongGame \<Rightarrow> PongGame" where
  "PongGame_handleInput r ev s =
     (case ev of
        None \<Rightarrow> s
      | Some e \<Rightarrow>
          if facility e = Input then
            if action (data e) = Press then
              if btn (data e) = Alt then s\<lparr>PongGame.transitionRequested := True\<rparr>
              else if btn (data e) = Select \<and> PongGame.gameOver s then
                PongGame_resetBall r (s\<lparr>PongGame.score := 0, PongGame.gameOver := False\<rparr>)
              else s
            else s
          else s)"

text \<open>The conditions \<^verbatim>\<open>checkCollisions\<close> tests, by name.\<close>

definition paddleTop :: "PongGame \<Rightarrow> real" where
  "paddleTop s = paddleY s * real_of_int (SCREEN_HEIGHT - PADDLE_HEIGHT)"

definition atTopBottom :: "PongGame \<Rightarrow> bool" where
  "atTopBottom s =
     (ball_y (ballState s) \<le> 0 \<or>
      ball_y (ballState s) \<ge> real_of_int (SCREEN_HEIGHT - BALL_SIZE))"

definition atPaddleSide :: "PongGame \<Rightarrow> bool" where
  "atPaddleSide s = (ball_x (ballState s) \<le> real_of_int PADDLE_WIDTH)"

definition withinPaddle :: "PongGame \<Rightarrow> bool" where
  "withinPaddle s =
     (ball_y (ballState s) \<ge> paddleTop s \<and>
      ball_y (ballState s) \<le> paddleTop s + real_of_int PADDLE_HEIGHT)"

definition atRightWall :: "PongGame \<Rightarrow> bool" where
  "atRightWall s = (ball_x (ballState s) \<ge> real_of_int (SCREEN_WIDTH - BALL_SIZE))"

text \<open>
  Each branch of \<^verbatim>\<open>checkCollisions\<close> that resolves a collision (top or bottom wall,
  paddle hit, miss, right wall) plays exactly one cue, so the number of cues one call
  appends to the log is the number of resolutions it applies.
\<close>

definition resolutionsApplied :: "PongGame \<Rightarrow> nat" where
  "resolutionsApplied s =
     length (PongGame.audio (PongGame_checkCollisions s)) - length (PongGame.audio s)"

text \<open>
  A press of button \<open>b\<close> as \<^verbatim>\<open>handleInput\<close> recognises it; \<^verbatim>\<open>Select\<close> is the restart
  input, honoured only when \<^verbatim>\<open>gameOver\<close> is set.
\<close>

definition pressed :: "Button \<Rightarrow> Event option \<Rightarrow> bool" where
  "pressed b ev =
     (case ev of
        None \<Rightarrow> False
      | Some e \<Rightarrow> facility e = Input \<and> action (data e) = Press \<and> btn (data e) = b)"

definition press :: "Button \<Rightarrow> Event option" where
  "press b = Some \<lparr>facility = Input, data = \<lparr>btn = b, action = Press\<rparr>\<rparr>"

text \<open>
  A session of the paddle game: the screen is constructed, then started, stopped,
  ticked by the game thread and polled by the UI thread in any order.
\<close>

datatype PongCall =
  PongStart real
  | PongStop
  | PongTick real
  | PongPoll u32 "Event option"

fun PongGame_call :: "PongCall \<Rightarrow> PongGame \<Rightarrow> PongGame" where
  "PongGame_call (PongStart a) s = PongGame_onStart a s"
| "PongGame_call PongStop s = PongGame_onStop s"
| "PongGame_call (PongTick a) s = PongGame_updateGame a s"
| "PongGame_call (PongPoll r ev) s = PongGame_handleInput r ev s"

fun PongGame_session :: "PongCall list \<Rightarrow> PongGame \<Rightarrow> PongGame" where
  "PongGame_session [] s = s"
| "PongGame_session (c # cs) s = PongGame_session cs (PongGame_call c s)"

fun PongGame_restarts :: "PongCall \<Rightarrow> bool" where
  "PongGame_restarts (PongPoll r ev) = pressed Select ev"
| "PongGame_restarts c = False"


section \<open>BirdDodger\<close>

definition MAX_BIRDS :: nat where
  "MAX_BIRDS = 5"

definition PLANE_SIZE :: int where
  "PLANE_SIZE = 8"

definition BIRD_SIZE :: int where
  "BIRD_SIZE = 6"

definition PLANE_Y :: int where
  "PLANE_Y = 100"

definition INITIAL_SPEED :: real where
  "INITIAL_SPEED = 1"

definition SPEED_INCREMENT :: real where
  "SPEED_INCREMENT = 1 / 10"

definition MAX_SPEED :: real where
  "MAX_SPEED = 3"

definition PLANE_SPEED :: real where
  "PLANE_SPEED = 3 / 100"

definition SPAWN_INTERVAL :: int where
  "SPAWN_INTERVAL = 60"

record Bird =
  bird_x :: real
  bird_y :: real
  bird_active :: bool

text \<open>
  The game state of \<^verbatim>\<open>BirdDodger\<close>. The arrays \<^verbatim>\<open>birdState[MAX_BIRDS]\<close> and
  \<^verbatim>\<open>birds[MAX_BIRDS]\<close> are lists; of the UI objects \<^verbatim>\<open>birds[i]\<close> the state keeps the flag
  \<^verbatim>\<open>LV_OBJ_FLAG_HIDDEN\<close>, in \<open>birdsHidden\<close>.
\<close>

record BirdDodger =
  planeX :: real
  birdState :: "Bird list"
  score :: int
  lastDifficultyScore :: int
  gameOver :: bool
  scrollSpeed :: real
  frameCounter :: int
  rollFilter :: EMA
  birdsHidden :: "bool list"
  running :: bool
  audio :: "Cue list"
  transitionRequested :: bool

definition BirdDodger_playMissSound :: "BirdDodger \<Rightarrow> BirdDodger" where
  "BirdDodger_playMissSound s = s\<lparr>BirdDodger.audio := BirdDodger.audio s @ [MissSound]\<rparr>"

text \<open>
  The constructor: member initialisers, then the loop over \<^verbatim>\<open>i < MAX_BIRDS\<close> that hides
  every bird object and sets every slot to inactive, \<^verbatim>\<open>x = 0\<close>, \<^verbatim>\<open>y = -BIRD_SIZE\<close>.
\<close>

definition BirdDodger_new :: BirdDodger where
  "BirdDodger_new =
     \<lparr>planeX = 1 / 2,
      birdState =
        replicate MAX_BIRDS
          \<lparr>bird_x = 0, bird_y = real_of_int (- BIRD_SIZE), bird_active = False\<rparr>,
      score = 0,
      lastDifficultyScore = 0,
      gameOver = False,
      scrollSpeed = INITIAL_SPEED,
      frameCounter = 0,
      rollFilter = EMA_new filterStrength,
      birdsHidden = replicate MAX_BIRDS True,
      running = False,
      audio = [],
      transitionRequested = False\<rparr>"

definition BirdDodger_onStart :: "real \<Rightarrow> BirdDodger \<Rightarrow> BirdDodger" where
  "BirdDodger_onStart accelX s =
     s\<lparr>rollFilter := EMA_reset accelX (rollFilter s), BirdDodger.running := True\<rparr>"

definition BirdDodger_onStop :: "BirdDodger \<Rightarrow> BirdDodger" where
  "BirdDodger_onStop s = s\<lparr>BirdDodger.running := False\<rparr>"

text \<open>
  \<^verbatim>\<open>spawnBird\<close>: the loop from index \<open>i\<close> on; the first inactive slot is activated and
  the loop left by \<^verbatim>\<open>break\<close>. \<open>r\<close> is the value \<^verbatim>\<open>esp_random()\<close> returns if it is called.
\<close>

function spawnBird_from :: "nat \<Rightarrow> u32 \<Rightarrow> BirdDodger \<Rightarrow> BirdDodger" where
  "spawnBird_from i r s =
     (if i < MAX_BIRDS then
        if \<not> bird_active (birdState s ! i) then
          s\<lparr>birdState :=
              (birdState s)[i := (birdState s ! i)
                 \<lparr>bird_active := True,
                  bird_x := real (unat (r mod word_of_int (SCREEN_WIDTH - BIRD_SIZE))),
                  bird_y := real_of_int (- BIRD_SIZE)\<rparr>],
            birdsHidden := (birdsHidden s)[i := False]\<rparr>
        else spawnBird_from (Suc i) r s
      else s)"
  by pat_completeness auto
termination
  by (relation "measure (\<lambda>(i, r, s). MAX_BIRDS - i)") auto

declare spawnBird_from.simps [simp del]

definition BirdDodger_spawnBird :: "u32 \<Rightarrow> BirdDodger \<Rightarrow> BirdDodger" where
  "BirdDodger_spawnBird r s = spawnBird_from 0 r s"

text \<open>The body of the loop "Update bird positions (move down)" of \<^verbatim>\<open>updateGame\<close>.\<close>

definition moveBird :: "nat \<Rightarrow> BirdDodger \<Rightarrow> BirdDodger" where
  "moveBird i s =
     (if bird_active (birdState s ! i) then
        (let b = (birdState s ! i)\<lparr>bird_y := bird_y (birdState s ! i) + scrollSpeed s\<rparr>
         in if bird_y b > real_of_int SCREEN_HEIGHT then
              s\<lparr>birdState := (birdState s)[i := b\<lparr>bird_active := False\<rparr>],
                birdsHidden := (birdsHidden s)[i := True],
                BirdDodger.score := BirdDodger.score s + 1\<rparr>
            else s\<lparr>birdState := (birdState s)[i := b]\<rparr>)
      else s)"

function moveBirds_from :: "nat \<Rightarrow> BirdDodger \<Rightarrow> BirdDodger" where
  "moveBirds_from i s =
     (if i < MAX_BIRDS then moveBirds_from (Suc i) (moveBird i s) else s)"
  by pat_completeness auto
termination
  by (relation "measure (\<lambda>(i, s). MAX_BIRDS - i)") auto

declare moveBirds_from.simps [simp del]

text \<open>The bounding box test of \<^verbatim>\<open>checkCollisions\<close> for one bird.\<close>

definition collision :: "real \<Rightarrow> Bird \<Rightarrow> bool" where
  "collision planePixelX b =
     (let collisionX = planePixelX < bird_x b + real_of_int BIRD_SIZE \<and>
                       planePixelX + real_of_int PLANE_SIZE > bird_x b;
          collisionY = real_of_int PLANE_Y < bird_y b + real_of_int BIRD_SIZE \<and>
                       real_of_int (PLANE_Y + PLANE_SIZE) > bird_y b
      in collisionX \<and> collisionY)"

function checkBirds_from :: "nat \<Rightarrow> real \<Rightarrow> BirdDodger \<Rightarrow> BirdDodger" where
  "checkBirds_from i planePixelX s =
     (if i < MAX_BIRDS then
        if \<not> bird_active (birdState s ! i) then checkBirds_from (Suc i) planePixelX s
        else if collision planePixelX (birdState s ! i) then
          BirdDodger_playMissSound (s\<lparr>BirdDodger.gameOver := True\<rparr>)
        else checkBirds_from (Suc i) planePixelX s
      else s)"
  by pat_completeness auto
termination
  by (relation "measure (\<lambda>(i, p, s). MAX_BIRDS - i)") auto

declare checkBirds_from.simps [simp del]

definition BirdDodger_checkCollisions :: "BirdDodger \<Rightarrow> BirdDodger" where
  "BirdDodger_checkCollisions s =
     (if BirdDodger.gameOver s then s
      else checkBirds_from 0 (planeX s * real_of_int (SCREEN_WIDTH - PLANE_SIZE)) s)"

text \<open>
  The parts of \<^verbatim>\<open>updateGame\<close> in source order: the frame counter and the periodic
  spawn, the move loop, the collision check, the plane update from the sample
  \<open>accelX\<close>, and the difficulty step.
\<close>

definition spawnPeriodically :: "u32 \<Rightarrow> BirdDodger \<Rightarrow> BirdDodger" where
  "spawnPeriodically r s =
     (let s1 = s\<lparr>frameCounter := frameCounter s + 1\<rparr>
      in if frameCounter s1 smod SPAWN_INTERVAL = 0 then BirdDodger_spawnBird r s1 else s1)"

definition updatePlane :: "real \<Rightarrow> BirdDodger \<Rightarrow> BirdDodger" where
  "updatePlane accelX s =
     (let (roll, f) = EMA_update accelX (rollFilter s);
          targetX = clamp ((roll + 3 / 10) / (6 / 10)) 0 1;
          p = planeX s + (targetX - planeX s) * PLANE_SPEED
      in s\<lparr>rollFilter := f, planeX := clamp p 0 1\<rparr>)"

definition increaseDifficulty :: "BirdDodger \<Rightarrow> BirdDodger" where
  "increaseDifficulty s =
     (if BirdDodger.score s > 0 \<and> BirdDodger.score s smod 10 = 0 \<and> scrollSpeed s < MAX_SPEED
      then
        if BirdDodger.score s \<noteq> lastDifficultyScore s then
          s\<lparr>scrollSpeed := min (scrollSpeed s + SPEED_INCREMENT) MAX_SPEED,
            lastDifficultyScore := BirdDodger.score s\<rparr>
        else s
      else s)"

text \<open>The state at the call of \<^verbatim>\<open>checkCollisions()\<close> inside \<^verbatim>\<open>updateGame\<close>.\<close>

definition advanceBirds :: "u32 \<Rightarrow> BirdDodger \<Rightarrow> BirdDodger" where
  "advanceBirds r s = moveBirds_from 0 (spawnPeriodically r s)"

definition BirdDodger_updateGame :: "u32 \<Rightarrow> real \<Rightarrow> BirdDodger \<Rightarrow> BirdDodger" where
  "BirdDodger_updateGame r accelX s =
     (if BirdDodger.gameOver s then s
      else increaseDifficulty
             (updatePlane accelX (BirdDodger_checkCollisions (advanceBirds r s))))"

text \<open>The loop "Reset all birds" of \<^verbatim>\<open>handleInput\<close>.\<close>

function resetBirds_from :: "nat \<Rightarrow> BirdDodger \<Rightarrow> BirdDodger" where
  "resetBirds_from i s =
     (if i < MAX_BIRDS then
        resetBirds_from (Suc i)
          (s\<lparr>birdState := (birdState s)[i := (birdState s ! i)\<lparr>bird_active := False\<rparr>],
             birdsHidden := (birdsHidden s)[i := True]\<rparr>)
      else s)"
  by pat_completeness auto
termination
  by (relation "measure (\<lambda>(i, s). MAX_BIRDS - i)") auto

declare resetBirds_from.simps [simp del]

definition BirdDodger_handleInput :: "Event option \<Rightarrow> BirdDodger \<Rightarrow> BirdDodger" where
  "BirdDodger_handleInput ev s =
     (case ev of
        None \<Rightarrow> s
      | Some e \<Rightarrow>
          if facility e = Input then
            if action (data e) = Press then
              if btn (data e) = Alt then s\<lparr>BirdDodger.transitionRequested := True\<rparr>
              else if btn (data e) = Select \<and> BirdDodger.gameOver s then
                resetBirds_from 0
                  (s\<lparr>BirdDodger.score := 0,
                     lastDifficultyScore := 0,
                     BirdDodger.gameOver := False,
                     scrollSpeed := INITIAL_SPEED,
                     frameCounter := 0\<rparr>)
              else s
            else s
          else s)"

text \<open>
  A session of the dodging game: the screen is constructed, then started, stopped,
  ticked by the game thread and polled by the UI thread in any order.
\<close>

datatype Call =
  Start real
  | Stop
  | Tick u32 real
  | Poll "Event option"

fun BirdDodger_call :: "Call \<Rightarrow> BirdDodger \<Rightarrow> BirdDodger" where
  "BirdDodger_call (Start a) s = BirdDodger_onStart a s"
| "BirdDodger_call Stop s = BirdDodger_onStop s"
| "BirdDodger_call (Tick r a) s = BirdDodger_updateGame r a s"
| "BirdDodger_call (Poll ev) s = BirdDodger_handleInput ev s"

fun BirdDodger_session :: "Call list \<Rightarrow> BirdDodger \<Rightarrow> BirdDodger" where
  "BirdDodger_session [] s = s"
| "BirdDodger_session (c # cs) s = BirdDodger_session cs (BirdDodger_call c s)"

fun BirdDodger_restarts :: "Call \<Rightarrow> bool" where
  "BirdDodger_restarts (Poll ev) = pressed Select ev"
| "BirdDodger_restarts c = False"

text \<open>The number of pool slots with \<^verbatim>\<open>active = true\<close>.\<close>

definition activeCount :: "BirdDodger \<Rightarrow> nat" where
  "activeCount s = length (filter bird_active (birdState s))"


text \<open>
  The two operations on the pool, in any order and number: \<^verbatim>\<open>spawnBird()\<close>, and the
  pass of \<^verbatim>\<open>updateGame\<close> that moves the active birds and deactivates those that have
  left the screen.
\<close>

datatype PoolOp = Spawn u32 | MoveAndReap

fun poolOp :: "PoolOp \<Rightarrow> BirdDodger \<Rightarrow> BirdDodger" where
  "poolOp (Spawn r) s = BirdDodger_spawnBird r s"
| "poolOp MoveAndReap s = moveBirds_from 0 s"

fun poolOps :: "PoolOp list \<Rightarrow> BirdDodger \<Rightarrow> BirdDodger" where
  "poolOps [] s = s"
| "poolOps (c # cs) s = poolOps cs (poolOp c s)"


text \<open>What one pass of the move loop does to one slot, at scroll speed \<open>v\<close>.\<close>

definition movedBird :: "real \<Rightarrow> Bird \<Rightarrow> Bird" where
  "movedBird v b =
     (if bird_active b then
        if bird_y b + v > real_of_int SCREEN_HEIGHT
        then b\<lparr>bird_y := bird_y b + v, bird_active := False\<rparr>
        else b\<lparr>bird_y := bird_y b + v\<rparr>
      else b)"

text \<open>The slots the next pass of the move loop deactivates, each for one point.\<close>

definition leavesScreen :: "BirdDodger \<Rightarrow> nat \<Rightarrow> bool" where
  "leavesScreen s j =
     (bird_active (birdState s ! j) \<and>
      bird_y (birdState s ! j) + scrollSpeed s > real_of_int SCREEN_HEIGHT)"

text \<open>
  The birds' spacing, with the active birds at least \<open>frameCounter mod 60 - c\<close> down
  the screen: the pool has its \<^verbatim>\<open>MAX_BIRDS\<close> slots, the frame counter is not negative,
  the scroll speed is between \<^verbatim>\<open>INITIAL_SPEED\<close> and \<^verbatim>\<open>MAX_SPEED\<close>, no active bird is
  below the screen's lower edge, and any two active birds are at least 60 apart.
\<close>

definition spaced :: "real \<Rightarrow> BirdDodger \<Rightarrow> bool" where
  "spaced c s =
     (length (birdState s) = MAX_BIRDS \<and>
      0 \<le> frameCounter s \<and>
      INITIAL_SPEED \<le> scrollSpeed s \<and>
      scrollSpeed s \<le> MAX_SPEED \<and>
      (\<forall>i < MAX_BIRDS. bird_active (birdState s ! i) \<longrightarrow>
         bird_y (birdState s ! i) \<le> real_of_int SCREEN_HEIGHT \<and>
         real_of_int (frameCounter s mod SPAWN_INTERVAL) - c \<le> bird_y (birdState s ! i)) \<and>
      (\<forall>i < MAX_BIRDS. \<forall>j < MAX_BIRDS.
         i \<noteq> j \<and> bird_active (birdState s ! i) \<and> bird_active (birdState s ! j) \<longrightarrow>
         60 \<le> \<bar>bird_y (birdState s ! i) - bird_y (birdState s ! j)\<bar>))"

text \<open>
  What every state of a session satisfies as far as the birds' spacing goes. Birds
  are spawned \<^verbatim>\<open>SPAWN_INTERVAL\<close> ticks apart at \<open>y = -BIRD_SIZE\<close> and all move by the
  same scroll speed, at least \<^verbatim>\<open>INITIAL_SPEED\<close>, in every tick: so between two ticks
  the youngest active bird is at \<open>frameCounter mod 60 - 5\<close> or further down, and any
  two active birds are at least 60 apart.
\<close>

definition spacingInv :: "BirdDodger \<Rightarrow> bool" where
  "spacingInv s = spaced 5 s"

section \<open>Example states\<close>

text \<open>A paddle game that has ended with 7 points, the paddle low on the screen.\<close>

definition pongOver :: PongGame where
  "pongOver =
     \<lparr>ballState = \<lparr>ball_x = - 1, ball_y = 20, ball_vx = - 1, ball_vy = 1\<rparr>,
      paddleY = 9 / 10,
      score = 7,
      gameOver = True,
      pitchFilter = \<lparr>current = 1 / 4, strength = filterStrength\<rparr>,
      running = True,
      audio = [MissSound],
      transitionRequested = False\<rparr>"

text \<open>A dodging game that has ended with 12 points at speed 1.1, one bird on the plane.\<close>

definition dodgerOver :: BirdDodger where
  "dodgerOver =
     \<lparr>planeX = 1 / 4,
      birdState =
        [\<lparr>bird_x = 30, bird_y = 197 / 2, bird_active = True\<rparr>,
         \<lparr>bird_x = 80, bird_y = 65 / 2, bird_active = True\<rparr>,
         \<lparr>bird_x = 5, bird_y = 129, bird_active = False\<rparr>,
         \<lparr>bird_x = 0, bird_y = - 6, bird_active = False\<rparr>,
         \<lparr>bird_x = 0, bird_y = - 6, bird_active = False\<rparr>],
      score = 12,
      lastDifficultyScore = 10,
      gameOver = True,
      scrollSpeed = 11 / 10,
      frameCounter = 934,
      rollFilter = \<lparr>current = - 1 / 10, strength = filterStrength\<rparr>,
      birdsHidden = [False, False, True, True, True],
      running = True,
      audio = [MissSound],
      transitionRequested = False\<rparr>"


text \<open>
  A paddle game in play: the ball one step right of the paddle's face and moving
  left, the paddle covering \<open>y\<close> from 52 to 76.
\<close>

definition pongPlaying :: PongGame where
  "pongPlaying =
     \<lparr>ballState = \<lparr>ball_x = 5, ball_y = 64, ball_vx = - 3 / 2, ball_vy = 0\<rparr>,
      paddleY = 1 / 2,
      score = 3,
      gameOver = False,
      pitchFilter = \<lparr>current = 0, strength = filterStrength\<rparr>,
      running = True,
      audio = [],
      transitionRequested = False\<rparr>"

text \<open>The same game with the ball about to pass the left edge above the paddle.\<close>

definition pongMissing :: PongGame where
  "pongMissing =
     pongPlaying\<lparr>ballState := \<lparr>ball_x = 1, ball_y = 20, ball_vx = - 3 / 2, ball_vy = 0\<rparr>\<rparr>"

text \<open>The same game with the ball one step from the top right corner.\<close>

definition pongCorner :: PongGame where
  "pongCorner =
     pongPlaying\<lparr>ballState := \<lparr>ball_x = 247 / 2, ball_y = 1 / 2, ball_vx = 1, ball_vy = - 1\<rparr>\<rparr>"

text \<open>The same game with the ball in mid field, one step from the top wall.\<close>

definition pongAtTop :: PongGame where
  "pongAtTop =
     pongPlaying\<lparr>ballState := \<lparr>ball_x = 64, ball_y = 1 / 2, ball_vx = 6 / 5, ball_vy = - 9 / 10\<rparr>\<rparr>"

text \<open>
  The same game with the paddle at the bottom and the ball one step from its face,
  slowly sinking towards the bottom wall.
\<close>

definition pongLow :: PongGame where
  "pongLow =
     pongPlaying
       \<lparr>ballState := \<lparr>ball_x = 5, ball_y = 2479 / 20, ball_vx = - 3 / 2, ball_vy = 1 / 10\<rparr>,
        paddleY := 1,
        pitchFilter := \<lparr>current = 3 / 10, strength = filterStrength\<rparr>\<rparr>"

text \<open>The dodging game of \<open>dodgerOver\<close> one tick earlier, still in play.\<close>

definition dodgerPlaying :: BirdDodger where
  "dodgerPlaying =
     dodgerOver
       \<lparr>birdState :=
          [\<lparr>bird_x = 30, bird_y = 487 / 5, bird_active = True\<rparr>,
           \<lparr>bird_x = 80, bird_y = 157 / 5, bird_active = True\<rparr>,
           \<lparr>bird_x = 5, bird_y = 129, bird_active = False\<rparr>,
           \<lparr>bird_x = 0, bird_y = - 6, bird_active = False\<rparr>,
           \<lparr>bird_x = 0, bird_y = - 6, bird_active = False\<rparr>],
        BirdDodger.gameOver := False,
        frameCounter := 933,
        BirdDodger.audio := []\<rparr>"

text \<open>A dodging game in play with every slot of the pool active.\<close>

definition dodgerFull :: BirdDodger where
  "dodgerFull =
     dodgerPlaying
       \<lparr>birdState :=
          [\<lparr>bird_x = 1, bird_y = - 6, bird_active = True\<rparr>,
           \<lparr>bird_x = 2, bird_y = - 6, bird_active = True\<rparr>,
           \<lparr>bird_x = 3, bird_y = - 6, bird_active = True\<rparr>,
           \<lparr>bird_x = 4, bird_y = - 6, bird_active = True\<rparr>,
           \<lparr>bird_x = 5, bird_y = - 6, bird_active = True\<rparr>],
        birdsHidden := [False, False, False, False, False]\<rparr>"


section \<open>Frozen simulation after game over\<close>

lemma PongGame_session_gameOver:
  "PongGame.gameOver s \<Longrightarrow> \<forall>c \<in> set cs. \<not> PongGame_restarts c \<Longrightarrow>
     PongGame.gameOver (PongGame_session cs s) \<and>
     ballState (PongGame_session cs s) = ballState s \<and>
     PongGame.score (PongGame_session cs s) = PongGame.score s \<and>
     paddleY (PongGame_session cs s) = paddleY s"
proof (induction cs arbitrary: s)
  case Nil
  then show ?case by simp
next
  case (Cons c cs)
  have step: "PongGame.gameOver (PongGame_call c s) \<and>
      ballState (PongGame_call c s) = ballState s \<and>
      PongGame.score (PongGame_call c s) = PongGame.score s \<and>
      paddleY (PongGame_call c s) = paddleY s"
    using Cons.prems
    by (cases c)
      (auto simp: PongGame_onStart_def PongGame_onStop_def PongGame_updateGame_def
        PongGame_handleInput_def pressed_def split: option.splits)
  with Cons.IH [of "PongGame_call c s"] Cons.prems show ?case by simp
qed

lemma BirdDodger_session_gameOver:
  "BirdDodger.gameOver s \<Longrightarrow> \<forall>c \<in> set cs. \<not> BirdDodger_restarts c \<Longrightarrow>
     BirdDodger.gameOver (BirdDodger_session cs s) \<and>
     birdState (BirdDodger_session cs s) = birdState s \<and>
     BirdDodger.score (BirdDodger_session cs s) = BirdDodger.score s \<and>
     scrollSpeed (BirdDodger_session cs s) = scrollSpeed s \<and>
     planeX (BirdDodger_session cs s) = planeX s"
proof (induction cs arbitrary: s)
  case Nil
  then show ?case by simp
next
  case (Cons c cs)
  have step: "BirdDodger.gameOver (BirdDodger_call c s) \<and>
      birdState (BirdDodger_call c s) = birdState s \<and>
      BirdDodger.score (BirdDodger_call c s) = BirdDodger.score s \<and>
      scrollSpeed (BirdDodger_call c s) = scrollSpeed s \<and>
      planeX (BirdDodger_call c s) = planeX s"
    using Cons.prems
    by (cases c)
      (auto simp: BirdDodger_onStart_def BirdDodger_onStop_def BirdDodger_updateGame_def
        BirdDodger_handleInput_def pressed_def split: option.splits)
  with Cons.IH [of "BirdDodger_call c s"] Cons.prems show ?case by simp
qed

text \<open>
  C1. Once \<^verbatim>\<open>gameOver\<close> is set, a tick (\<^verbatim>\<open>updateGame\<close>) returns at once and leaves the
  whole state as it was, in both games; and over any sequence of calls that delivers
  no restart input (ticks, polls of other events, start and stop) the phase stays
  game over and the score, the ball's position and velocity, the birds' positions
  and activation flags, the actor's position and the scroll speed keep their values.
\<close>

theorem gameOver_freezes_simulation:
  "(PongGame.gameOver p \<longrightarrow> PongGame_updateGame a p = p) \<and>
   (BirdDodger.gameOver b \<longrightarrow> BirdDodger_updateGame r a' b = b) \<and>
   (PongGame.gameOver p \<and> (\<forall>c \<in> set pcs. \<not> PongGame_restarts c) \<longrightarrow>
      PongGame.gameOver (PongGame_session pcs p) \<and>
      ballState (PongGame_session pcs p) = ballState p \<and>
      PongGame.score (PongGame_session pcs p) = PongGame.score p \<and>
      paddleY (PongGame_session pcs p) = paddleY p) \<and>
   (BirdDodger.gameOver b \<and> (\<forall>c \<in> set bcs. \<not> BirdDodger_restarts c) \<longrightarrow>
      BirdDodger.gameOver (BirdDodger_session bcs b) \<and>
      birdState (BirdDodger_session bcs b) = birdState b \<and>
      BirdDodger.score (BirdDodger_session bcs b) = BirdDodger.score b \<and>
      scrollSpeed (BirdDodger_session bcs b) = scrollSpeed b \<and>
      planeX (BirdDodger_session bcs b) = planeX b)"
  using PongGame_session_gameOver [of p pcs] BirdDodger_session_gameOver [of b bcs]
  by (simp add: PongGame_updateGame_def BirdDodger_updateGame_def)

theorem gameOver_freezes_simulation_witness:
  "PongGame.gameOver pongOver \<and>
   PongGame_updateGame (1 / 10) pongOver = pongOver \<and>
   BirdDodger.gameOver dodgerOver \<and>
   BirdDodger_updateGame 77 (1 / 10) dodgerOver = dodgerOver \<and>
   \<not> PongGame_restarts (PongTick (1 / 10)) \<and>
   \<not> PongGame_restarts (PongPoll 3 (press Up)) \<and>
   PongGame.score
     (PongGame_session [PongTick (1 / 10), PongPoll 3 (press Up), PongTick (1 / 10)] pongOver) = 7 \<and>
   ballState
     (PongGame_session [PongTick (1 / 10), PongPoll 3 (press Up), PongTick (1 / 10)] pongOver) =
     \<lparr>ball_x = - 1, ball_y = 20, ball_vx = - 1, ball_vy = 1\<rparr> \<and>
   \<not> BirdDodger_restarts (Tick 77 (1 / 10)) \<and>
   \<not> BirdDodger_restarts (Poll None) \<and>
   BirdDodger.score (BirdDodger_session [Tick 77 (1 / 10), Poll None, Tick 5 0] dodgerOver) = 12 \<and>
   scrollSpeed (BirdDodger_session [Tick 77 (1 / 10), Poll None, Tick 5 0] dodgerOver) = 11 / 10 \<and>
   birdState (BirdDodger_session [Tick 77 (1 / 10), Poll None, Tick 5 0] dodgerOver) =
     birdState dodgerOver"
  using gameOver_freezes_simulation
    [of pongOver "1 / 10" dodgerOver 77 "1 / 10"
      "[PongTick (1 / 10), PongPoll 3 (press Up), PongTick (1 / 10)]"
      "[Tick 77 (1 / 10), Poll None, Tick 5 0]"]
  by (simp add: pongOver_def dodgerOver_def pressed_def press_def
      PongGame_updateGame_def BirdDodger_updateGame_def BirdDodger_handleInput_def
      PongGame_handleInput_def)

section \<open>The loops of the dodging game\<close>

text \<open>What each loop leaves alone, and what it does step by step.\<close>

lemma resetBirds_from_frame:
  "\<exists>bs hs. resetBirds_from i s = s\<lparr>birdState := bs, birdsHidden := hs\<rparr>"
proof (induction i s rule: resetBirds_from.induct)
  case (1 i s)
  show ?case
  proof (cases "i < MAX_BIRDS")
    case True
    from 1 [OF True] obtain bs hs where
      "resetBirds_from (Suc i)
         (s\<lparr>birdState := (birdState s)[i := (birdState s ! i)\<lparr>bird_active := False\<rparr>],
            birdsHidden := (birdsHidden s)[i := True]\<rparr>) =
       s\<lparr>birdState := bs, birdsHidden := hs\<rparr>"
      by auto
    with True show ?thesis
      by (subst resetBirds_from.simps) auto
  next
    case False
    then have "resetBirds_from i s = s\<lparr>birdState := birdState s, birdsHidden := birdsHidden s\<rparr>"
      by (subst resetBirds_from.simps) simp
    then show ?thesis by blast
  qed
qed

lemma resetBirds_from_fields:
  "planeX (resetBirds_from i s) = planeX s"
  "BirdDodger.score (resetBirds_from i s) = BirdDodger.score s"
  "lastDifficultyScore (resetBirds_from i s) = lastDifficultyScore s"
  "BirdDodger.gameOver (resetBirds_from i s) = BirdDodger.gameOver s"
  "scrollSpeed (resetBirds_from i s) = scrollSpeed s"
  "frameCounter (resetBirds_from i s) = frameCounter s"
  "rollFilter (resetBirds_from i s) = rollFilter s"
  "BirdDodger.running (resetBirds_from i s) = BirdDodger.running s"
  "BirdDodger.audio (resetBirds_from i s) = BirdDodger.audio s"
  "BirdDodger.transitionRequested (resetBirds_from i s) = BirdDodger.transitionRequested s"
proof -
  obtain bs hs where "resetBirds_from i s = s\<lparr>birdState := bs, birdsHidden := hs\<rparr>"
    using resetBirds_from_frame by blast
  then show
    "planeX (resetBirds_from i s) = planeX s"
    "BirdDodger.score (resetBirds_from i s) = BirdDodger.score s"
    "lastDifficultyScore (resetBirds_from i s) = lastDifficultyScore s"
    "BirdDodger.gameOver (resetBirds_from i s) = BirdDodger.gameOver s"
    "scrollSpeed (resetBirds_from i s) = scrollSpeed s"
    "frameCounter (resetBirds_from i s) = frameCounter s"
    "rollFilter (resetBirds_from i s) = rollFilter s"
    "BirdDodger.running (resetBirds_from i s) = BirdDodger.running s"
    "BirdDodger.audio (resetBirds_from i s) = BirdDodger.audio s"
    "BirdDodger.transitionRequested (resetBirds_from i s) = BirdDodger.transitionRequested s"
    by simp_all
qed

lemma BirdDodger_handleInput_planeX:
  "planeX (BirdDodger_handleInput ev s) = planeX s"
  by (simp add: BirdDodger_handleInput_def resetBirds_from_fields split: option.splits)

lemma spawnBird_from_fields:
  "planeX (spawnBird_from i r s) = planeX s \<and>
   BirdDodger.score (spawnBird_from i r s) = BirdDodger.score s \<and>
   lastDifficultyScore (spawnBird_from i r s) = lastDifficultyScore s \<and>
   BirdDodger.gameOver (spawnBird_from i r s) = BirdDodger.gameOver s \<and>
   scrollSpeed (spawnBird_from i r s) = scrollSpeed s \<and>
   frameCounter (spawnBird_from i r s) = frameCounter s \<and>
   rollFilter (spawnBird_from i r s) = rollFilter s \<and>
   BirdDodger.running (spawnBird_from i r s) = BirdDodger.running s \<and>
   BirdDodger.audio (spawnBird_from i r s) = BirdDodger.audio s \<and>
   BirdDodger.transitionRequested (spawnBird_from i r s) = BirdDodger.transitionRequested s \<and>
   length (birdState (spawnBird_from i r s)) = length (birdState s) \<and>
   length (birdsHidden (spawnBird_from i r s)) = length (birdsHidden s)"
proof (induction i r s rule: spawnBird_from.induct)
  case (1 i r s)
  then show ?case
    by (simp add: spawnBird_from.simps [of i r s])
qed

lemma moveBird_fields:
  "planeX (moveBird i s) = planeX s \<and>
   lastDifficultyScore (moveBird i s) = lastDifficultyScore s \<and>
   BirdDodger.gameOver (moveBird i s) = BirdDodger.gameOver s \<and>
   scrollSpeed (moveBird i s) = scrollSpeed s \<and>
   frameCounter (moveBird i s) = frameCounter s \<and>
   rollFilter (moveBird i s) = rollFilter s \<and>
   BirdDodger.running (moveBird i s) = BirdDodger.running s \<and>
   BirdDodger.audio (moveBird i s) = BirdDodger.audio s \<and>
   BirdDodger.transitionRequested (moveBird i s) = BirdDodger.transitionRequested s \<and>
   length (birdState (moveBird i s)) = length (birdState s) \<and>
   length (birdsHidden (moveBird i s)) = length (birdsHidden s) \<and>
   BirdDodger.score s \<le> BirdDodger.score (moveBird i s)"
  by (simp add: moveBird_def Let_def)

lemma moveBirds_from_fields:
  "planeX (moveBirds_from i s) = planeX s \<and>
   lastDifficultyScore (moveBirds_from i s) = lastDifficultyScore s \<and>
   BirdDodger.gameOver (moveBirds_from i s) = BirdDodger.gameOver s \<and>
   scrollSpeed (moveBirds_from i s) = scrollSpeed s \<and>
   frameCounter (moveBirds_from i s) = frameCounter s \<and>
   rollFilter (moveBirds_from i s) = rollFilter s \<and>
   BirdDodger.running (moveBirds_from i s) = BirdDodger.running s \<and>
   BirdDodger.audio (moveBirds_from i s) = BirdDodger.audio s \<and>
   BirdDodger.transitionRequested (moveBirds_from i s) = BirdDodger.transitionRequested s \<and>
   length (birdState (moveBirds_from i s)) = length (birdState s) \<and>
   length (birdsHidden (moveBirds_from i s)) = length (birdsHidden s) \<and>
   BirdDodger.score s \<le> BirdDodger.score (moveBirds_from i s)"
proof (induction i s rule: moveBirds_from.induct)
  case (1 i s)
  show ?case
  proof (cases "i < MAX_BIRDS")
    case True
    with 1 [OF True] moveBird_fields [of i s] show ?thesis
      by (simp add: moveBirds_from.simps [of i s])
  next
    case False
    then show ?thesis
      by (simp add: moveBirds_from.simps [of i s])
  qed
qed

lemma checkBirds_from_fields:
  "planeX (checkBirds_from i p s) = planeX s \<and>
   birdState (checkBirds_from i p s) = birdState s \<and>
   birdsHidden (checkBirds_from i p s) = birdsHidden s \<and>
   BirdDodger.score (checkBirds_from i p s) = BirdDodger.score s \<and>
   lastDifficultyScore (checkBirds_from i p s) = lastDifficultyScore s \<and>
   scrollSpeed (checkBirds_from i p s) = scrollSpeed s \<and>
   frameCounter (checkBirds_from i p s) = frameCounter s \<and>
   rollFilter (checkBirds_from i p s) = rollFilter s \<and>
   BirdDodger.running (checkBirds_from i p s) = BirdDodger.running s \<and>
   BirdDodger.transitionRequested (checkBirds_from i p s) = BirdDodger.transitionRequested s"
proof (induction i p s rule: checkBirds_from.induct)
  case (1 i p s)
  then show ?case
    by (simp add: checkBirds_from.simps [of i p s] BirdDodger_playMissSound_def)
qed

lemma checkBirds_from_hit:
  "i \<le> j \<Longrightarrow> j < MAX_BIRDS \<Longrightarrow> bird_active (birdState s ! j) \<Longrightarrow>
     collision p (birdState s ! j) \<Longrightarrow> BirdDodger.gameOver (checkBirds_from i p s)"
proof (induction i p s rule: checkBirds_from.induct)
  case (1 i p s)
  show ?case
  proof (cases "i = j")
    case True
    with "1.prems" show ?thesis
      by (subst checkBirds_from.simps) (simp add: BirdDodger_playMissSound_def)
  next
    case False
    with "1.prems" have le: "Suc i \<le> j" and lt: "i < MAX_BIRDS" by simp_all
    have a: "\<not> bird_active (birdState s ! i) \<Longrightarrow>
        BirdDodger.gameOver (checkBirds_from (Suc i) p s)"
      using "1.IH"(1) [OF lt _ le] "1.prems" by simp
    have b: "bird_active (birdState s ! i) \<Longrightarrow> \<not> collision p (birdState s ! i) \<Longrightarrow>
        BirdDodger.gameOver (checkBirds_from (Suc i) p s)"
      using "1.IH"(2) [OF lt _ _ le] "1.prems" by simp
    from a b lt show ?thesis
      by (subst checkBirds_from.simps) (simp add: BirdDodger_playMissSound_def)
  qed
qed

lemma checkBirds_from_miss:
  "BirdDodger.gameOver (checkBirds_from i p s) \<Longrightarrow> \<not> BirdDodger.gameOver s \<Longrightarrow>
     \<exists>j. i \<le> j \<and> j < MAX_BIRDS \<and> bird_active (birdState s ! j) \<and>
       collision p (birdState s ! j)"
proof (induction i p s rule: checkBirds_from.induct)
  case (1 i p s)
  show ?case
  proof (cases "i < MAX_BIRDS")
    case False
    with "1.prems" show ?thesis
      by (simp add: checkBirds_from.simps [of i p s])
  next
    case lt: True
    show ?thesis
    proof (cases "bird_active (birdState s ! i) \<and> collision p (birdState s ! i)")
      case True
      with lt show ?thesis by blast
    next
      case False
      with lt "1.prems"(1) have over: "BirdDodger.gameOver (checkBirds_from (Suc i) p s)"
        by (auto simp: checkBirds_from.simps [of i p s] split: if_splits)
      have "\<exists>j. Suc i \<le> j \<and> j < MAX_BIRDS \<and> bird_active (birdState s ! j) \<and>
          collision p (birdState s ! j)"
      proof (cases "bird_active (birdState s ! i)")
        case True
        with False have "\<not> collision p (birdState s ! i)" by simp
        from "1.IH"(2) [OF lt _ this over "1.prems"(2)] True show ?thesis by simp
      next
        case False
        from "1.IH"(1) [OF lt False over "1.prems"(2)] show ?thesis .
      qed
      then show ?thesis
        using Suc_leD by blast
    qed
  qed
qed

lemma moveBirds_from_unroll:
  "moveBirds_from 0 s =
     moveBird 4 (moveBird 3 (moveBird 2 (moveBird 1 (moveBird 0 s))))"
proof -
  have 5: "moveBirds_from 5 t = t" for t
    by (subst moveBirds_from.simps) (simp add: MAX_BIRDS_def)
  have 4: "moveBirds_from 4 t = moveBird 4 t" for t
    using 5 [of "moveBird 4 t"] by (subst moveBirds_from.simps) (simp add: MAX_BIRDS_def eval_nat_numeral)
  have 3: "moveBirds_from 3 t = moveBird 4 (moveBird 3 t)" for t
    using 4 [of "moveBird 3 t"] by (subst moveBirds_from.simps) (simp add: MAX_BIRDS_def eval_nat_numeral)
  have 2: "moveBirds_from 2 t = moveBird 4 (moveBird 3 (moveBird 2 t))" for t
    using 3 [of "moveBird 2 t"] by (subst moveBirds_from.simps) (simp add: MAX_BIRDS_def eval_nat_numeral)
  have 1: "moveBirds_from 1 t = moveBird 4 (moveBird 3 (moveBird 2 (moveBird 1 t)))" for t
    using 2 [of "moveBird 1 t"] by (subst moveBirds_from.simps) (simp add: MAX_BIRDS_def eval_nat_numeral)
  show ?thesis
    using 1 [of "moveBird 0 s"] by (subst moveBirds_from.simps) (simp add: MAX_BIRDS_def)
qed

lemma checkBirds_from_step:
  "i < MAX_BIRDS \<Longrightarrow> \<not> bird_active (birdState s ! i) \<Longrightarrow>
     checkBirds_from i p s = checkBirds_from (Suc i) p s"
  "i < MAX_BIRDS \<Longrightarrow> bird_active (birdState s ! i) \<Longrightarrow> collision p (birdState s ! i) \<Longrightarrow>
     checkBirds_from i p s = BirdDodger_playMissSound (s\<lparr>BirdDodger.gameOver := True\<rparr>)"
  "i < MAX_BIRDS \<Longrightarrow> bird_active (birdState s ! i) \<Longrightarrow> \<not> collision p (birdState s ! i) \<Longrightarrow>
     checkBirds_from i p s = checkBirds_from (Suc i) p s"
  "\<not> i < MAX_BIRDS \<Longrightarrow> checkBirds_from i p s = s"
  by (subst checkBirds_from.simps, simp)+

lemma spawnBird_from_step:
  "i < MAX_BIRDS \<Longrightarrow> \<not> bird_active (birdState s ! i) \<Longrightarrow>
     spawnBird_from i r s =
       s\<lparr>birdState :=
           (birdState s)[i := (birdState s ! i)
              \<lparr>bird_active := True,
               bird_x := real (unat (r mod word_of_int (SCREEN_WIDTH - BIRD_SIZE))),
               bird_y := real_of_int (- BIRD_SIZE)\<rparr>],
         birdsHidden := (birdsHidden s)[i := False]\<rparr>"
  "i < MAX_BIRDS \<Longrightarrow> bird_active (birdState s ! i) \<Longrightarrow>
     spawnBird_from i r s = spawnBird_from (Suc i) r s"
  "\<not> i < MAX_BIRDS \<Longrightarrow> spawnBird_from i r s = s"
  by (subst spawnBird_from.simps, simp)+

lemma resetBirds_from_step:
  "i < MAX_BIRDS \<Longrightarrow>
     resetBirds_from i s =
       resetBirds_from (Suc i)
         (s\<lparr>birdState := (birdState s)[i := (birdState s ! i)\<lparr>bird_active := False\<rparr>],
            birdsHidden := (birdsHidden s)[i := True]\<rparr>)"
  "\<not> i < MAX_BIRDS \<Longrightarrow> resetBirds_from i s = s"
  by (subst resetBirds_from.simps, simp)+

lemmas dodger_consts =
  MAX_BIRDS_def SPAWN_INTERVAL_def SCREEN_HEIGHT_def SCREEN_WIDTH_def BIRD_SIZE_def
  PLANE_SIZE_def PLANE_Y_def PLANE_SPEED_def MAX_SPEED_def INITIAL_SPEED_def
  SPEED_INCREMENT_def filterStrength_def

lemmas pong_consts =
  SCREEN_HEIGHT_def SCREEN_WIDTH_def BALL_SIZE_def PADDLE_WIDTH_def PADDLE_HEIGHT_def
  BALL_SPEED_def PADDLE_SPEED_def filterStrength_def

lemmas pong_tick_defs =
  PongGame_updateGame_def moveBall_def PongGame_checkCollisions_def checkWalls_def
  checkPaddle_def checkRightWall_def updatePaddle_def EMA_update_def clamp_def
  PongGame_playHitSound_def PongGame_playMissSound_def

lemmas pong_conds =
  paddleTop_def atTopBottom_def atPaddleSide_def withinPaddle_def atRightWall_def

lemmas dodger_tick_defs =
  BirdDodger_updateGame_def advanceBirds_def spawnPeriodically_def BirdDodger_spawnBird_def
  moveBirds_from_unroll moveBird_def BirdDodger_checkCollisions_def collision_def
  BirdDodger_playMissSound_def updatePlane_def increaseDifficulty_def EMA_update_def
  clamp_def signed_modulo_int_def

lemma updatePlane_fields:
  "BirdDodger.gameOver (updatePlane a s) = BirdDodger.gameOver s \<and>
   BirdDodger.score (updatePlane a s) = BirdDodger.score s \<and>
   birdState (updatePlane a s) = birdState s \<and>
   birdsHidden (updatePlane a s) = birdsHidden s \<and>
   scrollSpeed (updatePlane a s) = scrollSpeed s \<and>
   lastDifficultyScore (updatePlane a s) = lastDifficultyScore s \<and>
   frameCounter (updatePlane a s) = frameCounter s"
  by (simp add: updatePlane_def EMA_update_def Let_def)

lemma increaseDifficulty_fields:
  "BirdDodger.gameOver (increaseDifficulty s) = BirdDodger.gameOver s \<and>
   BirdDodger.score (increaseDifficulty s) = BirdDodger.score s \<and>
   birdState (increaseDifficulty s) = birdState s \<and>
   birdsHidden (increaseDifficulty s) = birdsHidden s \<and>
   planeX (increaseDifficulty s) = planeX s \<and>
   rollFilter (increaseDifficulty s) = rollFilter s \<and>
   frameCounter (increaseDifficulty s) = frameCounter s"
  by (simp add: increaseDifficulty_def)

lemma spawnPeriodically_fields:
  "planeX (spawnPeriodically r s) = planeX s \<and>
   BirdDodger.score (spawnPeriodically r s) = BirdDodger.score s \<and>
   BirdDodger.gameOver (spawnPeriodically r s) = BirdDodger.gameOver s \<and>
   scrollSpeed (spawnPeriodically r s) = scrollSpeed s \<and>
   lastDifficultyScore (spawnPeriodically r s) = lastDifficultyScore s \<and>
   frameCounter (spawnPeriodically r s) = frameCounter s + 1 \<and>
   rollFilter (spawnPeriodically r s) = rollFilter s \<and>
   length (birdState (spawnPeriodically r s)) = length (birdState s) \<and>
   length (birdsHidden (spawnPeriodically r s)) = length (birdsHidden s)"
  using spawnBird_from_fields [of 0 r "s\<lparr>frameCounter := frameCounter s + 1\<rparr>"]
  by (simp add: spawnPeriodically_def BirdDodger_spawnBird_def Let_def)

lemma advanceBirds_fields:
  "planeX (advanceBirds r s) = planeX s \<and>
   BirdDodger.gameOver (advanceBirds r s) = BirdDodger.gameOver s \<and>
   scrollSpeed (advanceBirds r s) = scrollSpeed s \<and>
   lastDifficultyScore (advanceBirds r s) = lastDifficultyScore s \<and>
   frameCounter (advanceBirds r s) = frameCounter s + 1 \<and>
   rollFilter (advanceBirds r s) = rollFilter s \<and>
   length (birdState (advanceBirds r s)) = length (birdState s) \<and>
   length (birdsHidden (advanceBirds r s)) = length (birdsHidden s) \<and>
   BirdDodger.score s \<le> BirdDodger.score (advanceBirds r s)"
  using moveBirds_from_fields [of 0 "spawnPeriodically r s"] spawnPeriodically_fields [of r s]
  by (simp add: advanceBirds_def)

lemma BirdDodger_checkCollisions_fields:
  "planeX (BirdDodger_checkCollisions s) = planeX s \<and>
   birdState (BirdDodger_checkCollisions s) = birdState s \<and>
   birdsHidden (BirdDodger_checkCollisions s) = birdsHidden s \<and>
   BirdDodger.score (BirdDodger_checkCollisions s) = BirdDodger.score s \<and>
   lastDifficultyScore (BirdDodger_checkCollisions s) = lastDifficultyScore s \<and>
   scrollSpeed (BirdDodger_checkCollisions s) = scrollSpeed s \<and>
   frameCounter (BirdDodger_checkCollisions s) = frameCounter s \<and>
   rollFilter (BirdDodger_checkCollisions s) = rollFilter s"
  by (simp add: BirdDodger_checkCollisions_def checkBirds_from_fields)

section \<open>The actor's position across a restart\<close>

text \<open>
  C10. The restart branch of \<^verbatim>\<open>handleInput\<close> does not assign the actor's normalised
  position: \<^verbatim>\<open>paddleY\<close> and \<^verbatim>\<open>planeX\<close> come out of every call of \<^verbatim>\<open>handleInput\<close>,
  the restart included, with the value they went in with, whereas the constructors
  set them to 0.5.
\<close>

theorem restart_keeps_actor_position:
  "paddleY (PongGame_handleInput r ev p) = paddleY p \<and>
   planeX (BirdDodger_handleInput ev b) = planeX b \<and>
   paddleY (PongGame_new r') = 1 / 2 \<and>
   planeX BirdDodger_new = 1 / 2"
  by (simp add: BirdDodger_handleInput_planeX PongGame_handleInput_def PongGame_resetBall_def
      PongGame_new_def BirdDodger_new_def split: option.splits)

theorem restart_keeps_actor_position_witness:
  "pressed Select (press Select) \<and>
   PongGame.gameOver pongOver \<and>
   \<not> PongGame.gameOver (PongGame_handleInput 7 (press Select) pongOver) \<and>
   paddleY (PongGame_handleInput 7 (press Select) pongOver) = 9 / 10 \<and>
   BirdDodger.gameOver dodgerOver \<and>
   \<not> BirdDodger.gameOver (BirdDodger_handleInput (press Select) dodgerOver) \<and>
   planeX (BirdDodger_handleInput (press Select) dodgerOver) = 1 / 4"
  using restart_keeps_actor_position [of 7 "press Select" pongOver dodgerOver]
  by (simp add: pongOver_def dodgerOver_def press_def pressed_def PongGame_handleInput_def
      PongGame_resetBall_def BirdDodger_handleInput_def resetBirds_from_fields)

section \<open>Collision resolution in the paddle game\<close>

lemma checkWalls_eq:
  "checkWalls s =
     (if atTopBottom s
      then s\<lparr>ballState := (ballState s)\<lparr>ball_vy := - ball_vy (ballState s)\<rparr>,
             PongGame.audio := PongGame.audio s @ [HitSound]\<rparr>
      else s)"
  by (simp add: checkWalls_def atTopBottom_def PongGame_playHitSound_def Let_def)

lemma checkPaddle_eq:
  "checkPaddle s =
     (if atPaddleSide s \<and> withinPaddle s
      then s\<lparr>ballState := (ballState s)
               \<lparr>ball_vx := - ball_vx (ballState s),
                ball_x := real_of_int PADDLE_WIDTH,
                ball_vy := ball_vy (ballState s) +
                  ((ball_y (ballState s) - paddleTop s) / real_of_int PADDLE_HEIGHT - 1 / 2) * (1 / 2)\<rparr>,
             PongGame.score := PongGame.score s + 1,
             PongGame.audio := PongGame.audio s @ [HitSound]\<rparr>
      else if atPaddleSide s \<and> ball_x (ballState s) \<le> 0
      then s\<lparr>PongGame.gameOver := True, PongGame.audio := PongGame.audio s @ [MissSound]\<rparr>
      else s)"
  by (simp add: checkPaddle_def atPaddleSide_def withinPaddle_def paddleTop_def
      PongGame_playHitSound_def PongGame_playMissSound_def Let_def)

lemma checkRightWall_eq:
  "checkRightWall s =
     (if atRightWall s
      then s\<lparr>ballState := (ballState s)
               \<lparr>ball_vx := - ball_vx (ballState s),
                ball_x := real_of_int (SCREEN_WIDTH - BALL_SIZE)\<rparr>,
             PongGame.audio := PongGame.audio s @ [HitSound]\<rparr>
      else s)"
  by (simp add: checkRightWall_def atRightWall_def PongGame_playHitSound_def Let_def)

lemma updatePaddle_fields:
  "ballState (updatePaddle a s) = ballState s \<and>
   PongGame.score (updatePaddle a s) = PongGame.score s \<and>
   PongGame.gameOver (updatePaddle a s) = PongGame.gameOver s \<and>
   PongGame.audio (updatePaddle a s) = PongGame.audio s"
  by (simp add: updatePaddle_def EMA_update_def Let_def)

text \<open>
  C6. In a tick that starts in play and in which the moved ball is at
  \<open>x \<le> PADDLE_WIDTH\<close> with its \<open>y\<close> within the paddle's extent: the ball's \<open>vx\<close> is
  negated, its \<open>x\<close> is set to \<open>PADDLE_WIDTH\<close>, its \<open>vy\<close> (which the top or bottom wall
  has negated first when the ball is also there) gains
  \<open>(hitFraction - 0.5) * 0.5\<close> with \<open>hitFraction = (y - paddleTop) / PADDLE_HEIGHT\<close>,
  the score grows by exactly one and \<^verbatim>\<open>gameOver\<close> stays unset.
\<close>

theorem paddle_hit_resolution:
  "\<not> PongGame.gameOver p \<and> atPaddleSide (moveBall p) \<and> withinPaddle (moveBall p) \<longrightarrow>
     (let s' = PongGame_updateGame a p;
          m = moveBall p;
          hitFraction = (ball_y (ballState m) - paddleTop p) / real_of_int PADDLE_HEIGHT
      in ball_vx (ballState s') = - ball_vx (ballState p) \<and>
         ball_x (ballState s') = real_of_int PADDLE_WIDTH \<and>
         ball_y (ballState s') = ball_y (ballState m) \<and>
         ball_vy (ballState s') =
           (if atTopBottom m then - ball_vy (ballState p) else ball_vy (ballState p)) +
           (hitFraction - 1 / 2) * (1 / 2) \<and>
         PongGame.score s' = PongGame.score p + 1 \<and>
         \<not> PongGame.gameOver s')"
  by (simp add: PongGame_updateGame_def PongGame_checkCollisions_def updatePaddle_fields
      checkWalls_eq checkPaddle_eq checkRightWall_eq pong_conds pong_consts moveBall_def Let_def)

theorem paddle_hit_resolution_witness:
  "\<not> PongGame.gameOver pongPlaying \<and>
   atPaddleSide (moveBall pongPlaying) \<and>
   withinPaddle (moveBall pongPlaying) \<and>
   ballState pongPlaying = \<lparr>ball_x = 5, ball_y = 64, ball_vx = - 3 / 2, ball_vy = 0\<rparr> \<and>
   ballState (PongGame_updateGame 0 pongPlaying) =
     \<lparr>ball_x = 4, ball_y = 64, ball_vx = 3 / 2, ball_vy = 0\<rparr> \<and>
   PongGame.score pongPlaying = 3 \<and>
   PongGame.score (PongGame_updateGame 0 pongPlaying) = 4 \<and>
   \<not> PongGame.gameOver (PongGame_updateGame 0 pongPlaying)"
  using paddle_hit_resolution [of pongPlaying 0]
  by (simp add: pongPlaying_def pong_tick_defs pong_conds pong_consts Let_def)

lemma PongGame_checkCollisions_audio:
  "PongGame.audio (PongGame_checkCollisions s) =
     PongGame.audio s @
     (if atTopBottom s then [HitSound] else []) @
     (if atPaddleSide s \<and> withinPaddle s then [HitSound]
      else if atPaddleSide s \<and> ball_x (ballState s) \<le> 0 then [MissSound]
      else if atRightWall s then [HitSound]
      else [])"
  by (simp add: PongGame_checkCollisions_def checkWalls_eq checkPaddle_eq checkRightWall_eq
      pong_conds pong_consts)

lemma paddle_side_excludes_right_wall:
  "\<not> (atPaddleSide s \<and> atRightWall s)"
  by (simp add: pong_conds pong_consts)

lemma PongGame_checkCollisions_vx:
  "ball_vx (ballState (PongGame_checkCollisions s)) =
     (if (atPaddleSide s \<and> withinPaddle s) \<or> atRightWall s
      then - ball_vx (ballState s) else ball_vx (ballState s))"
  by (auto simp: PongGame_checkCollisions_def checkWalls_eq checkPaddle_eq checkRightWall_eq
      pong_conds pong_consts)

lemma PongGame_checkCollisions_vy:
  "ball_vy (ballState (PongGame_checkCollisions s)) =
     (if atTopBottom s then - ball_vy (ballState s) else ball_vy (ballState s)) +
     (if atPaddleSide s \<and> withinPaddle s
      then ((ball_y (ballState s) - paddleTop s) / real_of_int PADDLE_HEIGHT - 1 / 2) * (1 / 2)
      else 0)"
  by (auto simp: PongGame_checkCollisions_def checkWalls_eq checkPaddle_eq checkRightWall_eq
      pong_conds pong_consts)

text \<open>
  C4, as the claim states it, fails: with the moved ball in the top right corner the
  top wall's resolution and the right wall's resolution are both applied in one tick.
\<close>

theorem single_resolution_counterexample:
  "\<not> PongGame.gameOver pongCorner \<and>
   atTopBottom (moveBall pongCorner) \<and>
   atRightWall (moveBall pongCorner) \<and>
   \<not> resolutionsApplied (moveBall pongCorner) \<le> 1 \<and>
   ballState (moveBall pongCorner) =
     \<lparr>ball_x = 249 / 2, ball_y = - 1 / 2, ball_vx = 1, ball_vy = - 1\<rparr> \<and>
   ballState (PongGame_updateGame 0 pongCorner) =
     \<lparr>ball_x = 124, ball_y = - 1 / 2, ball_vx = - 1, ball_vy = 1\<rparr> \<and>
   PongGame.audio (PongGame_updateGame 0 pongCorner) = [HitSound, HitSound]"
  by (simp add: pongCorner_def pongPlaying_def resolutionsApplied_def pong_tick_defs pong_conds
      pong_consts Let_def)

text \<open>
  C4, amended. The checks of \<^verbatim>\<open>checkCollisions\<close> run in the fixed order top/bottom
  walls, paddle side, right wall. The paddle-side resolution (hit or miss) and the
  right-wall resolution exclude each other, but the top/bottom resolution is applied
  independently of them: a ball that is at a top or bottom wall and at a side in the
  same tick receives both, so a tick applies at most two resolutions, and it negates
  \<open>vy\<close> at most once and \<open>vx\<close> at most once.
\<close>

theorem collision_checks_in_order:
  "PongGame.audio (PongGame_checkCollisions s) =
     PongGame.audio s @
     (if atTopBottom s then [HitSound] else []) @
     (if atPaddleSide s \<and> withinPaddle s then [HitSound]
      else if atPaddleSide s \<and> ball_x (ballState s) \<le> 0 then [MissSound]
      else if atRightWall s then [HitSound]
      else []) \<and>
   resolutionsApplied s \<le> 2 \<and>
   \<not> (atPaddleSide s \<and> atRightWall s) \<and>
   ball_vx (ballState (PongGame_checkCollisions s)) =
     (if (atPaddleSide s \<and> withinPaddle s) \<or> atRightWall s
      then - ball_vx (ballState s) else ball_vx (ballState s)) \<and>
   ball_vy (ballState (PongGame_checkCollisions s)) =
     (if atTopBottom s then - ball_vy (ballState s) else ball_vy (ballState s)) +
     (if atPaddleSide s \<and> withinPaddle s
      then ((ball_y (ballState s) - paddleTop s) / real_of_int PADDLE_HEIGHT - 1 / 2) * (1 / 2)
      else 0)"
  using PongGame_checkCollisions_audio [of s] PongGame_checkCollisions_vx [of s]
    PongGame_checkCollisions_vy [of s] paddle_side_excludes_right_wall [of s]
  by (simp add: resolutionsApplied_def)

theorem collision_checks_in_order_witness:
  "atTopBottom (moveBall pongCorner) \<and>
   \<not> atPaddleSide (moveBall pongCorner) \<and>
   atRightWall (moveBall pongCorner) \<and>
   PongGame.audio (PongGame_checkCollisions (moveBall pongCorner)) = [HitSound, HitSound] \<and>
   resolutionsApplied (moveBall pongCorner) = 2 \<and>
   ball_vx (ballState (PongGame_checkCollisions (moveBall pongCorner))) = - 1 \<and>
   ball_vy (ballState (PongGame_checkCollisions (moveBall pongCorner))) = 1"
  using collision_checks_in_order [of "moveBall pongCorner"]
  by (simp add: pongCorner_def pongPlaying_def resolutionsApplied_def pong_tick_defs pong_conds
      pong_consts Let_def)

text \<open>
  C5. The right wall's resolution negates \<open>vx\<close> and sets \<open>x\<close> to the wall's
  coordinate; the top and bottom walls' resolution negates \<open>vy\<close> and leaves \<open>y\<close>
  where the step put it. At \<open>pongAtTop\<close> the tick ends with the ball above the
  playfield, at \<open>y = -0.4\<close>.
\<close>

theorem top_wall_leaves_position:
  "\<not> PongGame.gameOver pongAtTop \<and>
   atTopBottom (moveBall pongAtTop) \<and>
   ballState pongAtTop = \<lparr>ball_x = 64, ball_y = 1 / 2, ball_vx = 6 / 5, ball_vy = - 9 / 10\<rparr> \<and>
   ballState (PongGame_updateGame 0 pongAtTop) =
     \<lparr>ball_x = 326 / 5, ball_y = - 2 / 5, ball_vx = 6 / 5, ball_vy = 9 / 10\<rparr> \<and>
   ball_y (ballState (PongGame_updateGame 0 pongAtTop)) < 0"
  by (simp add: pongAtTop_def pongPlaying_def pong_tick_defs pong_conds pong_consts Let_def)

text \<open>
  What the missing clamp leads to. At \<open>pongLow\<close> the ball touches the bottom wall
  while on the paddle: the wall negates a small \<open>vy\<close>, the paddle's spin outweighs it,
  and the ball is left beyond the wall moving outwards. From then on every tick finds
  it at the wall and negates \<open>vy\<close> again, so it stays beyond the wall, and
  \<^verbatim>\<open>playHitSound()\<close> is called in every tick.
\<close>

lemma bottom_wall_reflects_every_tick:
  "ballState (PongGame_updateGame (3 / 10) pongLow) =
     \<lparr>ball_x = 4, ball_y = 2481 / 20, ball_vx = 3 / 2, ball_vy = 13 / 192\<rparr> \<and>
   ballState (PongGame_updateGame (3 / 10) (PongGame_updateGame (3 / 10) pongLow)) =
     \<lparr>ball_x = 11 / 2, ball_y = 119153 / 960, ball_vx = 3 / 2, ball_vy = - 13 / 192\<rparr> \<and>
   ballState (PongGame_updateGame (3 / 10)
     (PongGame_updateGame (3 / 10) (PongGame_updateGame (3 / 10) pongLow))) =
     \<lparr>ball_x = 7, ball_y = 2481 / 20, ball_vx = 3 / 2, ball_vy = 13 / 192\<rparr> \<and>
   PongGame.audio (PongGame_updateGame (3 / 10)
     (PongGame_updateGame (3 / 10) (PongGame_updateGame (3 / 10) pongLow))) =
     [HitSound, HitSound, HitSound, HitSound]"
proof -
  let ?s1 = "pongLow\<lparr>ballState :=
      \<lparr>ball_x = 4, ball_y = 2481 / 20, ball_vx = 3 / 2, ball_vy = 13 / 192\<rparr>,
    PongGame.score := 4, PongGame.audio := [HitSound, HitSound]\<rparr>"
  let ?s2 = "pongLow\<lparr>ballState :=
      \<lparr>ball_x = 11 / 2, ball_y = 119153 / 960, ball_vx = 3 / 2, ball_vy = - 13 / 192\<rparr>,
    PongGame.score := 4, PongGame.audio := [HitSound, HitSound, HitSound]\<rparr>"
  let ?s3 = "pongLow\<lparr>ballState :=
      \<lparr>ball_x = 7, ball_y = 2481 / 20, ball_vx = 3 / 2, ball_vy = 13 / 192\<rparr>,
    PongGame.score := 4, PongGame.audio := [HitSound, HitSound, HitSound, HitSound]\<rparr>"
  have 1: "PongGame_updateGame (3 / 10) pongLow = ?s1"
    by (simp add: pongLow_def pongPlaying_def pong_tick_defs pong_consts Let_def)
  have 2: "PongGame_updateGame (3 / 10) ?s1 = ?s2"
    by (simp add: pongLow_def pongPlaying_def pong_tick_defs pong_consts Let_def)
  have 3: "PongGame_updateGame (3 / 10) ?s2 = ?s3"
    by (simp add: pongLow_def pongPlaying_def pong_tick_defs pong_consts Let_def)
  show ?thesis
    by (simp only: 1 2 3) simp
qed

lemma wall_resolutions:
  "ball_y (ballState (PongGame_checkCollisions s)) = ball_y (ballState s) \<and>
   (atRightWall s \<longrightarrow>
      ball_x (ballState (PongGame_checkCollisions s)) = real_of_int (SCREEN_WIDTH - BALL_SIZE))"
  by (auto simp: PongGame_checkCollisions_def checkWalls_eq checkPaddle_eq checkRightWall_eq
      pong_conds pong_consts)

section \<open>The filter of the control axis\<close>

lemma BirdDodger_updateGame_rollFilter:
  "rollFilter (BirdDodger_updateGame r a b) =
     (if BirdDodger.gameOver b then rollFilter b else snd (EMA_update a (rollFilter b)))"
  by (simp add: BirdDodger_updateGame_def increaseDifficulty_fields
      BirdDodger_checkCollisions_fields advanceBirds_fields updatePlane_def EMA_update_def Let_def)

lemma PongGame_checkCollisions_pitchFilter:
  "pitchFilter (PongGame_checkCollisions s) = pitchFilter s"
  by (simp add: PongGame_checkCollisions_def checkWalls_eq checkPaddle_eq checkRightWall_eq)

lemma PongGame_updateGame_pitchFilter:
  "pitchFilter (PongGame_updateGame a p) =
     (if PongGame.gameOver p then pitchFilter p else snd (EMA_update a (pitchFilter p)))"
  by (simp add: PongGame_updateGame_def updatePaddle_def PongGame_checkCollisions_pitchFilter
      moveBall_def EMA_update_def Let_def)

text \<open>
  C9, as the claim states it, fails: the restart branch of \<^verbatim>\<open>handleInput\<close> reads no
  sensor sample and does not touch the filter. At \<open>pongOver\<close> the filter holds 0.25
  before and after the restart, and the first tick after it, with the sample 0,
  yields \<open>0.25 * 0.85\<close> where a filter reset to that sample would yield 0.
\<close>

theorem filter_reset_on_restart_counterexample:
  "PongGame.gameOver pongOver \<and>
   pressed Select (press Select) \<and>
   \<not> PongGame.gameOver (PongGame_handleInput 7 (press Select) pongOver) \<and>
   current (pitchFilter pongOver) = 1 / 4 \<and>
   current (pitchFilter (PongGame_handleInput 7 (press Select) pongOver)) = 1 / 4 \<and>
   current (pitchFilter
     (PongGame_updateGame 0 (PongGame_handleInput 7 (press Select) pongOver))) = 17 / 80 \<and>
   fst (EMA_update 0 (EMA_reset 0 (pitchFilter pongOver))) = 0"
  by (simp add: PongGame_updateGame_pitchFilter pongOver_def press_def pressed_def
      PongGame_handleInput_def PongGame_resetBall_def EMA_update_def EMA_reset_def
      filterStrength_def Let_def)

text \<open>
  C9, amended. \<^verbatim>\<open>onStart\<close> resets the filter to the sample it has just read;
  \<^verbatim>\<open>handleInput\<close>, the restart included, and \<^verbatim>\<open>onStop\<close> leave the filter as it was; a
  tick in play applies the exponential update rule once, a tick after game over
  leaves the filter as it was. So the filter's value is set at the session's start
  and otherwise only by the update rule, and a restart does not reset it.
\<close>

theorem filter_assignments:
  "pitchFilter (PongGame_onStart a p) = EMA_reset a (pitchFilter p) \<and>
   rollFilter (BirdDodger_onStart a b) = EMA_reset a (rollFilter b) \<and>
   current (EMA_reset a f) = a \<and>
   pitchFilter (PongGame_handleInput r ev p) = pitchFilter p \<and>
   rollFilter (BirdDodger_handleInput ev b) = rollFilter b \<and>
   pitchFilter (PongGame_onStop p) = pitchFilter p \<and>
   rollFilter (BirdDodger_onStop b) = rollFilter b \<and>
   pitchFilter (PongGame_updateGame a p) =
     (if PongGame.gameOver p then pitchFilter p else snd (EMA_update a (pitchFilter p))) \<and>
   rollFilter (BirdDodger_updateGame r a b) =
     (if BirdDodger.gameOver b then rollFilter b else snd (EMA_update a (rollFilter b))) \<and>
   current (snd (EMA_update a f)) = current f * (1 - strength f) + a * strength f \<and>
   strength (snd (EMA_update a f)) = strength f"
  by (simp add: PongGame_updateGame_pitchFilter BirdDodger_updateGame_rollFilter
      PongGame_onStart_def BirdDodger_onStart_def PongGame_onStop_def BirdDodger_onStop_def
      EMA_reset_def EMA_update_def Let_def PongGame_handleInput_def PongGame_resetBall_def
      BirdDodger_handleInput_def resetBirds_from_fields split: option.splits)

theorem filter_assignments_witness:
  "current (pitchFilter (PongGame_onStart (1 / 5) pongOver)) = 1 / 5 \<and>
   current (rollFilter (BirdDodger_onStart (1 / 5) dodgerOver)) = 1 / 5 \<and>
   current (pitchFilter (PongGame_handleInput 7 (press Select) pongOver)) = 1 / 4 \<and>
   current (rollFilter (BirdDodger_handleInput (press Select) dodgerOver)) = - 1 / 10 \<and>
   current (pitchFilter (PongGame_updateGame (1 / 5) pongOver)) = 1 / 4 \<and>
   current (pitchFilter (PongGame_updateGame (1 / 5) pongPlaying)) = 3 / 100 \<and>
   current (rollFilter (BirdDodger_updateGame 7 (1 / 5) dodgerPlaying)) = - 11 / 200"
  using filter_assignments [of "1 / 5" pongOver dodgerOver _ 7 "press Select"]
    filter_assignments [of "1 / 5" pongPlaying dodgerPlaying _ 7 "press Select"]
  by (simp add: pongOver_def pongPlaying_def dodgerOver_def dodgerPlaying_def EMA_update_def
      EMA_reset_def filterStrength_def Let_def)

section \<open>The random trajectory of the ball\<close>

lemma unat_mod_90: "unat ((r :: u32) mod 90) = unat r mod 90"
  by (simp add: unat_mod)

lemma resetBall_angle_cases:
  "resetBall_angle r =
     (if 45 \<le> unat r mod 90
      then real (unat r mod 90 - 45) * pi / 180
      else real (4294967251 + unat r mod 90) * pi / 180)"
proof -
  have "unat (r mod 90 - 45) =
      (if 45 \<le> unat r mod 90 then unat r mod 90 - 45 else unat r mod 90 + 2 ^ 32 - 45)"
    by (simp add: unat_sub_if_size unat_mod_90 word_size)
  also have "\<dots> = (if 45 \<le> unat r mod 90 then unat r mod 90 - 45
      else 4294967251 + unat r mod 90)"
    by simp
  finally show ?thesis
    by (simp add: resetBall_angle_def)
qed

lemma resetBall_angle_in_range:
  "45 \<le> unat r mod 90 \<Longrightarrow> 0 \<le> resetBall_angle r \<and> resetBall_angle r < pi / 4"
proof -
  assume h: "45 \<le> unat r mod 90"
  have "unat r mod 90 < 90" by simp
  then have "real (unat r mod 90 - 45) < 45" using h by linarith
  then have "real (unat r mod 90 - 45) * pi / 180 < 45 * pi / 180" by simp
  with h show ?thesis
    by (simp add: resetBall_angle_cases)
qed

lemma resetBall_angle_wraps:
  "unat r mod 90 < 45 \<Longrightarrow> 4294967251 * pi / 180 \<le> resetBall_angle r"
  by (simp add: resetBall_angle_cases)

lemma cos_wrapped_angle: "cos (4294967251 * pi / 180) < 0"
proof -
  have eq: "4294967251 * pi / 180 = (31 * pi / 180 + pi) + 2 * real 11930464 * pi"
    by simp
  have "cos ((31 * pi / 180 + pi) + 2 * real 11930464 * pi) = cos (31 * pi / 180 + pi)"
    by (simp only: cos_add cos_2npi sin_2npi mult_1_right mult_zero_right diff_zero)
  also have "\<dots> = - cos (31 * pi / 180)"
    by (rule cos_periodic_pi)
  also have "\<dots> < 0"
    using cos_gt_zero [of "31 * pi / 180"] by simp
  finally show ?thesis
    by (simp only: eq)
qed

lemma PongGame_resetBall_speed:
  "(ball_vx (ballState (PongGame_resetBall r s)))\<^sup>2 +
   (ball_vy (ballState (PongGame_resetBall r s)))\<^sup>2 = BALL_SPEED\<^sup>2"
proof -
  have "(BALL_SPEED * cos (resetBall_angle r))\<^sup>2 + (BALL_SPEED * sin (resetBall_angle r))\<^sup>2 =
      BALL_SPEED\<^sup>2 * ((cos (resetBall_angle r))\<^sup>2 + (sin (resetBall_angle r))\<^sup>2)"
    by (simp only: power_mult_distrib distrib_left)
  also have "\<dots> = BALL_SPEED\<^sup>2"
    by (simp only: sin_cos_squared_add2 mult_1_right)
  finally show ?thesis
    by (simp add: PongGame_resetBall_def)
qed

section \<open>The restart transition\<close>

lemma resetBirds_from_nth:
  "j < length (birdState s) \<Longrightarrow>
     birdState (resetBirds_from i s) ! j =
       (if i \<le> j \<and> j < MAX_BIRDS then (birdState s ! j)\<lparr>bird_active := False\<rparr>
        else birdState s ! j) \<and>
     length (birdState (resetBirds_from i s)) = length (birdState s)"
proof (induction i s rule: resetBirds_from.induct)
  case (1 i s)
  show ?case
  proof (cases "i < MAX_BIRDS")
    case True
    let ?s1 = "s\<lparr>birdState := (birdState s)[i := (birdState s ! i)\<lparr>bird_active := False\<rparr>],
      birdsHidden := (birdsHidden s)[i := True]\<rparr>"
    have "j < length (birdState ?s1)" using "1.prems" by simp
    from "1.IH" [OF True this] have IH:
      "birdState (resetBirds_from (Suc i) ?s1) ! j =
         (if Suc i \<le> j \<and> j < MAX_BIRDS then (birdState ?s1 ! j)\<lparr>bird_active := False\<rparr>
          else birdState ?s1 ! j)"
      "length (birdState (resetBirds_from (Suc i) ?s1)) = length (birdState s)"
      by simp_all
    have unfold: "resetBirds_from i s = resetBirds_from (Suc i) ?s1"
      using True by (subst resetBirds_from.simps) simp
    consider "j < i" | "j = i" | "i < j" by linarith
    then have "birdState (resetBirds_from (Suc i) ?s1) ! j =
        (if i \<le> j \<and> j < MAX_BIRDS then (birdState s ! j)\<lparr>bird_active := False\<rparr>
         else birdState s ! j)"
    proof cases
      case 1
      with IH(1) "1.prems" show ?thesis by simp
    next
      case 2
      with IH(1) "1.prems" True show ?thesis by simp
    next
      case 3
      with IH(1) "1.prems" show ?thesis by simp
    qed
    with IH(2) show ?thesis
      by (simp only: unfold)
  next
    case False
    then have "resetBirds_from i s = s"
      by (subst resetBirds_from.simps) simp
    with False show ?thesis
      by auto
  qed
qed

lemma resetBirds_from_inactive:
  assumes "length (birdState s) = MAX_BIRDS"
  shows "\<forall>b \<in> set (birdState (resetBirds_from 0 s)). \<not> bird_active b"
proof
  fix b assume "b \<in> set (birdState (resetBirds_from 0 s))"
  then obtain j where j: "j < length (birdState (resetBirds_from 0 s))"
    and b: "b = birdState (resetBirds_from 0 s) ! j"
    by (auto simp: in_set_conv_nth)
  have len: "length (birdState (resetBirds_from 0 s)) = length (birdState s)"
  proof (cases "birdState s")
    case Nil
    with assms show ?thesis by (simp add: MAX_BIRDS_def)
  next
    case (Cons a as)
    then have "0 < length (birdState s)" by simp
    from resetBirds_from_nth [OF this, of 0] show ?thesis by simp
  qed
  with j have "j < length (birdState s)" by simp
  from resetBirds_from_nth [OF this, of 0] assms this b show "\<not> bird_active b"
    by simp
qed

lemma BirdDodger_restart:
  assumes "BirdDodger.gameOver s" and "pressed Select ev"
  shows "BirdDodger.score (BirdDodger_handleInput ev s) = 0 \<and>
     lastDifficultyScore (BirdDodger_handleInput ev s) = 0 \<and>
     \<not> BirdDodger.gameOver (BirdDodger_handleInput ev s) \<and>
     scrollSpeed (BirdDodger_handleInput ev s) = INITIAL_SPEED \<and>
     frameCounter (BirdDodger_handleInput ev s) = 0 \<and>
     (length (birdState s) = MAX_BIRDS \<longrightarrow>
        (\<forall>b \<in> set (birdState (BirdDodger_handleInput ev s)). \<not> bird_active b))"
proof -
  let ?s0 = "s\<lparr>BirdDodger.score := 0, lastDifficultyScore := 0, BirdDodger.gameOver := False,
    scrollSpeed := INITIAL_SPEED, frameCounter := 0\<rparr>"
  have eq: "BirdDodger_handleInput ev s = resetBirds_from 0 ?s0"
    using assms by (auto simp: BirdDodger_handleInput_def pressed_def split: option.splits)
  have "length (birdState s) = MAX_BIRDS \<Longrightarrow>
      \<forall>b \<in> set (birdState (resetBirds_from 0 ?s0)). \<not> bird_active b"
    using resetBirds_from_inactive [of ?s0] by simp
  then show ?thesis
    unfolding eq by (simp add: resetBirds_from_fields)
qed

lemma PongGame_restart:
  assumes "PongGame.gameOver s" and "pressed Select ev"
  shows "PongGame.score (PongGame_handleInput r ev s) = 0 \<and>
     \<not> PongGame.gameOver (PongGame_handleInput r ev s) \<and>
     ball_x (ballState (PongGame_handleInput r ev s)) = 64 \<and>
     ball_y (ballState (PongGame_handleInput r ev s)) = 64 \<and>
     ball_vx (ballState (PongGame_handleInput r ev s)) = BALL_SPEED * cos (resetBall_angle r) \<and>
     ball_vy (ballState (PongGame_handleInput r ev s)) = BALL_SPEED * sin (resetBall_angle r)"
  using assms
  by (auto simp: PongGame_handleInput_def PongGame_resetBall_def PongGame_new_def pressed_def
      pong_consts split: option.splits)

lemma handleInput_in_play:
  "\<not> PongGame.gameOver p \<Longrightarrow> \<not> PongGame.gameOver (PongGame_handleInput r ev p)"
  "\<not> PongGame.gameOver p \<Longrightarrow> pressed Select ev \<Longrightarrow> PongGame_handleInput r ev p = p"
  "\<not> BirdDodger.gameOver b \<Longrightarrow> \<not> BirdDodger.gameOver (BirdDodger_handleInput ev b)"
  "\<not> BirdDodger.gameOver b \<Longrightarrow> pressed Select ev \<Longrightarrow> BirdDodger_handleInput ev b = b"
  by (cases ev; simp add: PongGame_handleInput_def BirdDodger_handleInput_def pressed_def)+

lemma handleInput_leaves_gameOver:
  "PongGame.gameOver p \<Longrightarrow> \<not> PongGame.gameOver (PongGame_handleInput r ev p) \<Longrightarrow>
     pressed Select ev"
  "BirdDodger.gameOver b \<Longrightarrow> \<not> BirdDodger.gameOver (BirdDodger_handleInput ev b) \<Longrightarrow>
     pressed Select ev"
  by (cases ev; simp add: PongGame_handleInput_def BirdDodger_handleInput_def pressed_def
      split: if_splits)+

text \<open>
  C3. A Select press while \<^verbatim>\<open>gameOver\<close> is set restarts the paddle game: the score is
  0, the ball is at the centre and its speed is \<^verbatim>\<open>BALL_SPEED\<close>. Its angle is not within
  the 45 degrees either side of the axis that \<^verbatim>\<open>resetBall\<close> documents: when
  \<^verbatim>\<open>esp_random()\<close> returns 0 the unsigned subtraction \<^verbatim>\<open>0 - 45\<close> wraps around to
  4294967251, the angle is that many degrees, and the ball leaves the centre towards
  the paddle (\<open>vx < 0\<close>), where every angle within the documented bounds sends it
  away from the paddle.
\<close>

theorem restart_angle_wraps_around:
  "PongGame.gameOver pongOver \<and>
   pressed Select (press Select) \<and>
   \<not> PongGame.gameOver (PongGame_handleInput 0 (press Select) pongOver) \<and>
   PongGame.score (PongGame_handleInput 0 (press Select) pongOver) = 0 \<and>
   ball_x (ballState (PongGame_handleInput 0 (press Select) pongOver)) = 64 \<and>
   ball_y (ballState (PongGame_handleInput 0 (press Select) pongOver)) = 64 \<and>
   ball_vx (ballState (PongGame_handleInput 0 (press Select) pongOver)) =
     BALL_SPEED * cos (resetBall_angle 0) \<and>
   ball_vy (ballState (PongGame_handleInput 0 (press Select) pongOver)) =
     BALL_SPEED * sin (resetBall_angle 0) \<and>
   resetBall_angle 0 = 4294967251 * pi / 180 \<and>
   \<not> (- (pi / 4) \<le> resetBall_angle 0 \<and> resetBall_angle 0 \<le> pi / 4) \<and>
   ball_vx (ballState (PongGame_handleInput 0 (press Select) pongOver)) < 0"
proof -
  have over: "PongGame.gameOver pongOver"
    by (simp add: pongOver_def)
  have sel: "pressed Select (press Select)"
    by (simp add: pressed_def press_def)
  have angle: "resetBall_angle 0 = 4294967251 * pi / 180"
    by (simp add: resetBall_angle_def)
  have neg: "BALL_SPEED * cos (resetBall_angle 0) < 0"
    using cos_wrapped_angle by (simp add: angle BALL_SPEED_def)
  have out: "\<not> (- (pi / 4) \<le> resetBall_angle 0 \<and> resetBall_angle 0 \<le> pi / 4)"
    by (simp add: angle)
  note r = PongGame_restart [OF over sel, of 0]
  from r neg have "ball_vx (ballState (PongGame_handleInput 0 (press Select) pongOver)) < 0"
    by simp
  with r over sel angle out show ?thesis
    by (intro conjI) (simp_all only: simp_thms)
qed

section \<open>The pool of birds\<close>

lemma BirdDodger_new_length:
  "length (birdState BirdDodger_new) = MAX_BIRDS \<and>
   length (birdsHidden BirdDodger_new) = MAX_BIRDS"
  by (simp add: BirdDodger_new_def)

lemma resetBirds_from_length:
  "length (birdState (resetBirds_from i s)) = length (birdState s) \<and>
   length (birdsHidden (resetBirds_from i s)) = length (birdsHidden s)"
proof (induction i s rule: resetBirds_from.induct)
  case (1 i s)
  then show ?case
    by (simp add: resetBirds_from.simps [of i s])
qed

lemma BirdDodger_call_length:
  "length (birdState (BirdDodger_call c s)) = length (birdState s)"
proof (cases c)
  case (Tick r a)
  then show ?thesis
    by (simp add: BirdDodger_updateGame_def increaseDifficulty_fields updatePlane_fields
        BirdDodger_checkCollisions_fields advanceBirds_fields)
next
  case (Poll ev)
  then show ?thesis
    by (cases ev) (simp_all add: BirdDodger_handleInput_def resetBirds_from_length)
qed (simp_all add: BirdDodger_onStart_def BirdDodger_onStop_def)

lemma BirdDodger_session_length:
  "length (birdState (BirdDodger_session cs s)) = length (birdState s)"
  by (induction cs arbitrary: s) (simp_all add: BirdDodger_call_length)

lemma poolOps_length:
  "length (birdState (poolOps ops s)) = length (birdState s)"
proof (induction ops arbitrary: s)
  case Nil
  then show ?case by simp
next
  case (Cons c ops)
  have "length (birdState (poolOp c s)) = length (birdState s)"
    by (cases c) (simp_all add: BirdDodger_spawnBird_def spawnBird_from_fields
        moveBirds_from_fields)
  with Cons show ?case by simp
qed

lemma activeCount_le: "activeCount s \<le> length (birdState s)"
  by (simp add: activeCount_def)

lemma spawnBird_from_full:
  "\<forall>j. i \<le> j \<and> j < MAX_BIRDS \<longrightarrow> bird_active (birdState s ! j) \<Longrightarrow>
     spawnBird_from i r s = s"
proof (induction i r s rule: spawnBird_from.induct)
  case (1 i r s)
  show ?case
  proof (cases "i < MAX_BIRDS")
    case True
    with "1.prems" have act: "bird_active (birdState s ! i)" by simp
    from "1.prems" have "\<forall>j. Suc i \<le> j \<and> j < MAX_BIRDS \<longrightarrow> bird_active (birdState s ! j)"
      by simp
    from "1.IH" [OF True _ this] act have "spawnBird_from (Suc i) r s = s" by simp
    with True act show ?thesis
      by (subst spawnBird_from.simps) simp
  next
    case False
    then show ?thesis
      by (subst spawnBird_from.simps) simp
  qed
qed

lemma filter_update_count:
  "k < length xs \<Longrightarrow> \<not> P (xs ! k) \<Longrightarrow> P x \<Longrightarrow>
     length (filter P (xs[k := x])) = Suc (length (filter P xs))"
proof (induction xs arbitrary: k)
  case Nil
  then show ?case by simp
next
  case (Cons a xs)
  then show ?case by (cases k) simp_all
qed

lemma spawnBird_from_free:
  "i \<le> j \<Longrightarrow> j < MAX_BIRDS \<Longrightarrow> j < length (birdState s) \<Longrightarrow>
     \<not> bird_active (birdState s ! j) \<Longrightarrow>
     activeCount (spawnBird_from i r s) = Suc (activeCount s)"
proof (induction i r s rule: spawnBird_from.induct)
  case (1 i r s)
  from "1.prems" have lt: "i < MAX_BIRDS" by simp
  show ?case
  proof (cases "bird_active (birdState s ! i)")
    case True
    with "1.prems" have "i \<noteq> j" by auto
    with "1.prems" have "Suc i \<le> j" by simp
    from "1.IH" [OF lt _ this "1.prems"(2-)] True lt show ?thesis
      by (subst spawnBird_from.simps) simp
  next
    case False
    from "1.prems" have "i < length (birdState s)" by simp
    with False lt show ?thesis
      by (subst spawnBird_from.simps) (simp add: activeCount_def filter_update_count)
  qed
qed

text \<open>
  C8. The pool is the array \<^verbatim>\<open>birdState[MAX_BIRDS]\<close>: no operation changes its length,
  so over every session of the game, and over every sequence of spawns and
  move-and-reap passes from any pool of \<^verbatim>\<open>MAX_BIRDS\<close> slots, the number of active slots
  stays at most \<^verbatim>\<open>MAX_BIRDS\<close>. \<^verbatim>\<open>spawnBird()\<close> with
  every slot active returns the state unchanged (the loop ends without activating
  anything); with a free slot it activates exactly one.
\<close>

theorem pool_capacity_invariant:
  "length (birdState (BirdDodger_session cs BirdDodger_new)) = MAX_BIRDS \<and>
   activeCount (BirdDodger_session cs BirdDodger_new) \<le> MAX_BIRDS \<and>
   (length (birdState p) = MAX_BIRDS \<longrightarrow>
      length (birdState (poolOps ops p)) = MAX_BIRDS \<and>
      activeCount (poolOps ops p) \<le> MAX_BIRDS) \<and>
   length (birdState (BirdDodger_spawnBird r s)) = length (birdState s) \<and>
   ((\<forall>j < MAX_BIRDS. bird_active (birdState s ! j)) \<longrightarrow> BirdDodger_spawnBird r s = s) \<and>
   (length (birdState s) = MAX_BIRDS \<and> (\<exists>j < MAX_BIRDS. \<not> bird_active (birdState s ! j)) \<longrightarrow>
      activeCount (BirdDodger_spawnBird r s) = activeCount s + 1)"
proof (intro conjI impI)
  show "length (birdState (BirdDodger_session cs BirdDodger_new)) = MAX_BIRDS"
    by (simp add: BirdDodger_session_length BirdDodger_new_length)
  then show "activeCount (BirdDodger_session cs BirdDodger_new) \<le> MAX_BIRDS"
    using activeCount_le [of "BirdDodger_session cs BirdDodger_new"] by simp
  show "length (birdState (BirdDodger_spawnBird r s)) = length (birdState s)"
    by (simp add: BirdDodger_spawnBird_def spawnBird_from_fields)
next
  assume "length (birdState p) = MAX_BIRDS"
  then show "length (birdState (poolOps ops p)) = MAX_BIRDS"
    by (simp add: poolOps_length)
  then show "activeCount (poolOps ops p) \<le> MAX_BIRDS"
    using activeCount_le [of "poolOps ops p"] by simp
next
  assume "\<forall>j < MAX_BIRDS. bird_active (birdState s ! j)"
  then show "BirdDodger_spawnBird r s = s"
    by (simp add: BirdDodger_spawnBird_def spawnBird_from_full)
next
  assume "length (birdState s) = MAX_BIRDS \<and> (\<exists>j < MAX_BIRDS. \<not> bird_active (birdState s ! j))"
  then obtain j where "j < MAX_BIRDS" "j < length (birdState s)"
    "\<not> bird_active (birdState s ! j)"
    by auto
  from spawnBird_from_free [OF _ this, of 0 r]
  show "activeCount (BirdDodger_spawnBird r s) = activeCount s + 1"
    by (simp add: BirdDodger_spawnBird_def)
qed

theorem pool_capacity_invariant_witness:
  "activeCount (poolOps [Spawn 1, Spawn 2, Spawn 3, Spawn 4, Spawn 5, Spawn 6] BirdDodger_new) = 5 \<and>
   poolOps [Spawn 1, Spawn 2, Spawn 3, Spawn 4, Spawn 5] BirdDodger_new =
     poolOps [Spawn 1, Spawn 2, Spawn 3, Spawn 4, Spawn 5, Spawn 6] BirdDodger_new \<and>
   bird_active (birdState dodgerFull ! 0) \<and>
   bird_active (birdState dodgerFull ! 1) \<and>
   bird_active (birdState dodgerFull ! 2) \<and>
   bird_active (birdState dodgerFull ! 3) \<and>
   bird_active (birdState dodgerFull ! 4) \<and>
   activeCount dodgerFull = 5 \<and>
   BirdDodger_spawnBird 6 dodgerFull = dodgerFull \<and>
   length (birdState BirdDodger_new) = MAX_BIRDS \<and>
   (0 :: nat) < MAX_BIRDS \<and>
   \<not> bird_active (birdState BirdDodger_new ! 0) \<and>
   activeCount BirdDodger_new = 0 \<and>
   activeCount (BirdDodger_spawnBird 3 BirdDodger_new) = 1"
  using pool_capacity_invariant
      [of "[]" BirdDodger_new "[Spawn 1, Spawn 2, Spawn 3, Spawn 4, Spawn 5, Spawn 6]" 6
        dodgerFull]
    pool_capacity_invariant [of "[]" BirdDodger_new "[]" 3 BirdDodger_new]
  by (simp add: dodgerFull_def dodgerPlaying_def dodgerOver_def BirdDodger_new_def
      activeCount_def BirdDodger_spawnBird_def spawnBird_from_step dodger_consts
      eval_nat_numeral)

section \<open>Difficulty progression\<close>











section \<open>Spacing of the birds\<close>

lemma moveBird_nth:
  "j < length (birdState s) \<Longrightarrow>
     birdState (moveBird i s) ! j =
       (if j = i then movedBird (scrollSpeed s) (birdState s ! j) else birdState s ! j)"
  by (simp add: moveBird_def movedBird_def Let_def)

lemma moveBird_score:
  "BirdDodger.score (moveBird i s) =
     (if leavesScreen s i then BirdDodger.score s + 1 else BirdDodger.score s)"
  by (simp add: moveBird_def leavesScreen_def Let_def)

lemma moveBird_leavesScreen:
  "j < length (birdState s) \<Longrightarrow> j \<noteq> i \<Longrightarrow> leavesScreen (moveBird i s) j = leavesScreen s j"
  using moveBird_fields [of i s]
  by (simp add: leavesScreen_def moveBird_nth)

lemma moveBirds_from_nth:
  "j < length (birdState s) \<Longrightarrow>
     birdState (moveBirds_from i s) ! j =
       (if i \<le> j \<and> j < MAX_BIRDS then movedBird (scrollSpeed s) (birdState s ! j)
        else birdState s ! j)"
proof (induction i s rule: moveBirds_from.induct)
  case (1 i s)
  show ?case
  proof (cases "i < MAX_BIRDS")
    case True
    have unfold: "moveBirds_from i s = moveBirds_from (Suc i) (moveBird i s)"
      using True by (subst moveBirds_from.simps) simp
    have len: "j < length (birdState (moveBird i s))"
      using "1.prems" moveBird_fields [of i s] by simp
    have speed: "scrollSpeed (moveBird i s) = scrollSpeed s"
      using moveBird_fields [of i s] by simp
    note IH = "1.IH" [OF True len, unfolded speed]
    consider "j < i" | "j = i" | "i < j" by linarith
    then show ?thesis
    proof cases
      case 1
      with IH "1.prems" show ?thesis by (simp add: unfold moveBird_nth)
    next
      case 2
      with IH "1.prems" True show ?thesis by (simp add: unfold moveBird_nth)
    next
      case 3
      with IH "1.prems" show ?thesis by (simp add: unfold moveBird_nth)
    qed
  next
    case False
    then have "moveBirds_from i s = s"
      by (subst moveBirds_from.simps) simp
    with False show ?thesis by auto
  qed
qed

lemma moveBirds_from_score_none:
  "length (birdState s) = MAX_BIRDS \<Longrightarrow>
   \<forall>j. i \<le> j \<and> j < MAX_BIRDS \<longrightarrow> \<not> leavesScreen s j \<Longrightarrow>
     BirdDodger.score (moveBirds_from i s) = BirdDodger.score s"
proof (induction i s rule: moveBirds_from.induct)
  case (1 i s)
  show ?case
  proof (cases "i < MAX_BIRDS")
    case True
    have unfold: "moveBirds_from i s = moveBirds_from (Suc i) (moveBird i s)"
      using True by (subst moveBirds_from.simps) simp
    have len: "length (birdState (moveBird i s)) = MAX_BIRDS"
      using "1.prems" moveBird_fields [of i s] by simp
    have "\<forall>j. Suc i \<le> j \<and> j < MAX_BIRDS \<longrightarrow> \<not> leavesScreen (moveBird i s) j"
      using "1.prems" by (simp add: moveBird_leavesScreen)
    from "1.IH" [OF True len this] "1.prems" True show ?thesis
      by (simp add: unfold moveBird_score)
  next
    case False
    then show ?thesis
      by (subst moveBirds_from.simps) simp
  qed
qed

lemma moveBirds_from_score_one:
  "length (birdState s) = MAX_BIRDS \<Longrightarrow>
   \<forall>j k. i \<le> j \<and> j < MAX_BIRDS \<and> i \<le> k \<and> k < MAX_BIRDS \<and>
     leavesScreen s j \<and> leavesScreen s k \<longrightarrow> j = k \<Longrightarrow>
     BirdDodger.score (moveBirds_from i s) \<le> BirdDodger.score s + 1"
proof (induction i s rule: moveBirds_from.induct)
  case (1 i s)
  show ?case
  proof (cases "i < MAX_BIRDS")
    case True
    have unfold: "moveBirds_from i s = moveBirds_from (Suc i) (moveBird i s)"
      using True by (subst moveBirds_from.simps) simp
    have len: "length (birdState (moveBird i s)) = MAX_BIRDS"
      using "1.prems" moveBird_fields [of i s] by simp
    show ?thesis
    proof (cases "leavesScreen s i")
      case leaves: True
      have "\<forall>j. Suc i \<le> j \<and> j < MAX_BIRDS \<longrightarrow> \<not> leavesScreen (moveBird i s) j"
      proof (intro allI impI)
        fix j assume j: "Suc i \<le> j \<and> j < MAX_BIRDS"
        with "1.prems"(2) leaves True have "\<not> leavesScreen s j"
          by (metis Suc_n_not_le_n le_refl Suc_leD)
        with j "1.prems"(1) show "\<not> leavesScreen (moveBird i s) j"
          by (simp add: moveBird_leavesScreen)
      qed
      from moveBirds_from_score_none [OF len this] leaves show ?thesis
        by (simp add: unfold moveBird_score)
    next
      case stays: False
      have "\<forall>j k. Suc i \<le> j \<and> j < MAX_BIRDS \<and> Suc i \<le> k \<and> k < MAX_BIRDS \<and>
          leavesScreen (moveBird i s) j \<and> leavesScreen (moveBird i s) k \<longrightarrow> j = k"
      proof (intro allI impI)
        fix j k
        assume h: "Suc i \<le> j \<and> j < MAX_BIRDS \<and> Suc i \<le> k \<and> k < MAX_BIRDS \<and>
          leavesScreen (moveBird i s) j \<and> leavesScreen (moveBird i s) k"
        from h "1.prems"(1) have "j < length (birdState s)" "j \<noteq> i"
          and "k < length (birdState s)" "k \<noteq> i"
          by simp_all
        with h have "leavesScreen s j" "leavesScreen s k"
          using moveBird_leavesScreen [of j s i] moveBird_leavesScreen [of k s i] by simp_all
        moreover from h have "i \<le> j" "i \<le> k" by simp_all
        ultimately show "j = k"
          using h "1.prems"(2) by blast
      qed
      from "1.IH" [OF True len this] stays show ?thesis
        by (simp add: unfold moveBird_score)
    qed
  next
    case False
    then show ?thesis
      by (subst moveBirds_from.simps) simp
  qed
qed

lemma smod_nonneg:
  assumes "0 \<le> k" and "0 < l"
  shows "(k :: int) smod l = k mod l"
proof -
  have "\<bar>k\<bar> = k" "\<bar>l\<bar> = l" using assms by simp_all
  moreover have "sgn k * (k mod l) = k mod l"
  proof (cases "k = 0")
    case True
    then show ?thesis by simp
  next
    case False
    with assms have "sgn k = 1" by simp
    then show ?thesis by simp
  qed
  ultimately show ?thesis
    by (simp only: signed_modulo_int_def)
qed

lemma frame_mod_step:
  assumes "0 \<le> (f :: int)"
  shows "(f + 1) mod 60 = 0 \<Longrightarrow> f mod 60 = 59"
    and "(f + 1) mod 60 \<noteq> 0 \<Longrightarrow> (f + 1) mod 60 = f mod 60 + 1"
proof -
  have eq: "(f + 1) mod 60 = (f mod 60 + 1) mod 60"
    by (simp add: mod_add_left_eq)
  have range: "0 \<le> f mod 60" "f mod 60 < 60"
    by simp_all
  show "f mod 60 = 59" if "(f + 1) mod 60 = 0"
  proof (rule ccontr)
    assume "f mod 60 \<noteq> 59"
    with range have "f mod 60 + 1 < 60" "0 \<le> f mod 60 + 1" by simp_all
    then have "(f mod 60 + 1) mod 60 = f mod 60 + 1"
      by (rule_tac mod_pos_pos_trivial)
    with eq that range show False by simp
  qed
  show "(f + 1) mod 60 = f mod 60 + 1" if "(f + 1) mod 60 \<noteq> 0"
  proof (cases "f mod 60 = 59")
    case True
    with eq have "(f + 1) mod 60 = 0" by simp
    with that show ?thesis by simp
  next
    case False
    with range have "f mod 60 + 1 < 60" "0 \<le> f mod 60 + 1" by simp_all
    then have "(f mod 60 + 1) mod 60 = f mod 60 + 1"
      by (rule_tac mod_pos_pos_trivial)
    with eq show ?thesis by simp
  qed
qed

lemma spawnBird_from_birdState:
  "birdState (spawnBird_from i r s) = birdState s \<or>
   (\<exists>k x. i \<le> k \<and> k < MAX_BIRDS \<and> \<not> bird_active (birdState s ! k) \<and>
      birdState (spawnBird_from i r s) =
        (birdState s)[k := (birdState s ! k)
           \<lparr>bird_active := True, bird_x := x, bird_y := real_of_int (- BIRD_SIZE)\<rparr>])"
proof (induction i r s rule: spawnBird_from.induct)
  case (1 i r s)
  show ?case
  proof (cases "i < MAX_BIRDS")
    case True
    show ?thesis
    proof (cases "bird_active (birdState s ! i)")
      case act: True
      then have unfold: "spawnBird_from i r s = spawnBird_from (Suc i) r s"
        using True by (subst spawnBird_from.simps) simp
      from "1.IH" [OF True] act show ?thesis
        unfolding unfold using Suc_leD by blast
    next
      case False
      with True have "birdState (spawnBird_from i r s) =
          (birdState s)[i := (birdState s ! i)
            \<lparr>bird_active := True,
             bird_x := real (unat (r mod word_of_int (SCREEN_WIDTH - BIRD_SIZE))),
             bird_y := real_of_int (- BIRD_SIZE)\<rparr>]"
        by (subst spawnBird_from.simps) simp
      with True False show ?thesis by blast
    qed
  next
    case False
    then show ?thesis
      by (subst spawnBird_from.simps) simp
  qed
qed

lemmas spacing_consts =
  SCREEN_HEIGHT_def SPAWN_INTERVAL_def INITIAL_SPEED_def MAX_SPEED_def BIRD_SIZE_def

lemma spaced_fields:
  assumes "spaced c s"
    and "birdState t = birdState s" and "frameCounter t = frameCounter s"
    and "INITIAL_SPEED \<le> scrollSpeed t" and "scrollSpeed t \<le> MAX_SPEED"
  shows "spaced c t"
  using assms unfolding spaced_def by simp

lemma spaced_no_spawn:
  assumes "spaced 5 s" and "(frameCounter s + 1) mod 60 \<noteq> 0"
  shows "spaced 6 (s\<lparr>frameCounter := frameCounter s + 1\<rparr>)"
proof -
  from assms(1) have f: "0 \<le> frameCounter s"
    unfolding spaced_def by simp
  have "real_of_int ((frameCounter s + 1) mod 60) - 6 = real_of_int (frameCounter s mod 60) - 5"
    using frame_mod_step(2) [OF f assms(2)] by simp
  with assms(1) f show ?thesis
    unfolding spaced_def by (simp add: SPAWN_INTERVAL_def)
qed

lemma spaced_spawn:
  assumes inv: "spaced 5 s" and frame: "(frameCounter s + 1) mod 60 = 0"
  shows "spaced 6 (spawnBird_from 0 r (s\<lparr>frameCounter := frameCounter s + 1\<rparr>))"
proof -
  let ?s1 = "s\<lparr>frameCounter := frameCounter s + 1\<rparr>"
  let ?t = "spawnBird_from 0 r ?s1"
  let ?bs = "birdState s"
  from inv have f: "0 \<le> frameCounter s" and len: "length ?bs = MAX_BIRDS"
    and speed: "INITIAL_SPEED \<le> scrollSpeed s" "scrollSpeed s \<le> MAX_SPEED"
    unfolding spaced_def by simp_all
  have f59: "frameCounter s mod 60 = 59"
    using frame_mod_step(1) [OF f frame] .
  from inv f59 have old: "\<And>i. i < MAX_BIRDS \<Longrightarrow> bird_active (?bs ! i) \<Longrightarrow>
      bird_y (?bs ! i) \<le> 128 \<and> 54 \<le> bird_y (?bs ! i)"
    unfolding spaced_def by (simp add: spacing_consts)
  from inv have gap: "\<And>i j. i < MAX_BIRDS \<Longrightarrow> j < MAX_BIRDS \<Longrightarrow> i \<noteq> j \<Longrightarrow>
      bird_active (?bs ! i) \<Longrightarrow> bird_active (?bs ! j) \<Longrightarrow>
      60 \<le> \<bar>bird_y (?bs ! i) - bird_y (?bs ! j)\<bar>"
    unfolding spaced_def by simp
  have fields: "frameCounter ?t = frameCounter s + 1" "scrollSpeed ?t = scrollSpeed s"
    "length (birdState ?t) = MAX_BIRDS"
    using spawnBird_from_fields [of 0 r ?s1] len by simp_all
  have birds: "(\<forall>i < MAX_BIRDS. bird_active (birdState ?t ! i) \<longrightarrow>
        bird_y (birdState ?t ! i) \<le> 128 \<and> - 6 \<le> bird_y (birdState ?t ! i)) \<and>
      (\<forall>i < MAX_BIRDS. \<forall>j < MAX_BIRDS.
         i \<noteq> j \<and> bird_active (birdState ?t ! i) \<and> bird_active (birdState ?t ! j) \<longrightarrow>
         60 \<le> \<bar>bird_y (birdState ?t ! i) - bird_y (birdState ?t ! j)\<bar>)"
  proof -
    from spawnBird_from_birdState [of 0 r ?s1]
    consider "birdState ?t = ?bs"
      | k x where "k < MAX_BIRDS" "\<not> bird_active (?bs ! k)"
          "birdState ?t = ?bs[k := (?bs ! k)\<lparr>bird_active := True, bird_x := x, bird_y := - 6\<rparr>]"
      by (auto simp: BIRD_SIZE_def)
    then show ?thesis
    proof cases
      case 1
      show ?thesis
        unfolding 1 using old gap by force
    next
      case 2
      have nth: "\<And>i. i < MAX_BIRDS \<Longrightarrow> birdState ?t ! i =
          (if i = k then (?bs ! k)\<lparr>bird_active := True, bird_x := x, bird_y := - 6\<rparr>
           else ?bs ! i)"
        using 2(3) len by (simp add: nth_list_update)
      have one: "bird_y (birdState ?t ! i) \<le> 128 \<and> - 6 \<le> bird_y (birdState ?t ! i)"
        if "i < MAX_BIRDS" "bird_active (birdState ?t ! i)" for i
      proof (cases "i = k")
        case True
        with that nth show ?thesis by simp
      next
        case False
        with that nth old [of i] show ?thesis by simp
      qed
      have two: "60 \<le> \<bar>bird_y (birdState ?t ! i) - bird_y (birdState ?t ! j)\<bar>"
        if "i < MAX_BIRDS" "j < MAX_BIRDS" "i \<noteq> j"
          "bird_active (birdState ?t ! i)" "bird_active (birdState ?t ! j)" for i j
      proof -
        consider "i = k" | "j = k" | "i \<noteq> k" "j \<noteq> k" by blast
        then show ?thesis
        proof cases
          case 1
          with that nth [of i] nth [of j] old [of j] show ?thesis by simp
        next
          case 2
          with that nth [of i] nth [of j] old [of i] show ?thesis by simp
        next
          case 3
          with that nth [of i] nth [of j] gap [of i j] show ?thesis by simp
        qed
      qed
      from one two show ?thesis by blast
    qed
  qed
  from f have "0 \<le> frameCounter s + 1" by simp
  with fields speed birds frame show ?thesis
    unfolding spaced_def by (simp add: spacing_consts)
qed

lemma spaced_spawnPeriodically:
  assumes "spaced 5 s"
  shows "spaced 6 (spawnPeriodically r s)"
proof -
  from assms have f: "0 \<le> frameCounter s + 1"
    unfolding spaced_def by simp
  have eq: "(frameCounter s + 1) smod SPAWN_INTERVAL = (frameCounter s + 1) mod 60"
    using smod_nonneg [OF f, of 60] by (simp add: SPAWN_INTERVAL_def)
  show ?thesis
  proof (cases "(frameCounter s + 1) mod 60 = 0")
    case True
    with eq spaced_spawn [OF assms True, of r] show ?thesis
      by (simp add: spawnPeriodically_def BirdDodger_spawnBird_def Let_def)
  next
    case False
    with eq spaced_no_spawn [OF assms False] show ?thesis
      by (simp add: spawnPeriodically_def Let_def)
  qed
qed

lemma spaced_moveBirds:
  assumes inv: "spaced 6 s"
  shows "spaced 5 (moveBirds_from 0 s)"
proof -
  let ?t = "moveBirds_from 0 s"
  let ?bs = "birdState s"
  let ?v = "scrollSpeed s"
  from inv have len: "length ?bs = MAX_BIRDS" and v: "1 \<le> ?v"
    unfolding spaced_def by (simp_all add: spacing_consts)
  have nth: "\<And>i. i < MAX_BIRDS \<Longrightarrow> birdState ?t ! i = movedBird ?v (?bs ! i)"
    using moveBirds_from_nth [of _ s 0] len by simp
  have active: "\<And>i. i < MAX_BIRDS \<Longrightarrow> bird_active (birdState ?t ! i) \<Longrightarrow>
      bird_active (?bs ! i) \<and> bird_y (birdState ?t ! i) = bird_y (?bs ! i) + ?v \<and>
      bird_y (birdState ?t ! i) \<le> real_of_int SCREEN_HEIGHT"
    by (simp add: nth movedBird_def split: if_splits)
  from inv have old: "\<And>i. i < MAX_BIRDS \<Longrightarrow> bird_active (?bs ! i) \<Longrightarrow>
      real_of_int (frameCounter s mod SPAWN_INTERVAL) - 6 \<le> bird_y (?bs ! i)"
    unfolding spaced_def by simp
  from inv have gap: "\<And>i j. i < MAX_BIRDS \<Longrightarrow> j < MAX_BIRDS \<Longrightarrow> i \<noteq> j \<Longrightarrow>
      bird_active (?bs ! i) \<Longrightarrow> bird_active (?bs ! j) \<Longrightarrow>
      60 \<le> \<bar>bird_y (?bs ! i) - bird_y (?bs ! j)\<bar>"
    unfolding spaced_def by simp
  have one: "bird_y (birdState ?t ! i) \<le> real_of_int SCREEN_HEIGHT \<and>
      real_of_int (frameCounter s mod SPAWN_INTERVAL) - 5 \<le> bird_y (birdState ?t ! i)"
    if "i < MAX_BIRDS" "bird_active (birdState ?t ! i)" for i
    using active [OF that] old [OF that(1)] v by simp
  have two: "60 \<le> \<bar>bird_y (birdState ?t ! i) - bird_y (birdState ?t ! j)\<bar>"
    if "i < MAX_BIRDS" "j < MAX_BIRDS" "i \<noteq> j"
      "bird_active (birdState ?t ! i)" "bird_active (birdState ?t ! j)" for i j
    using active [OF that(1,4)] active [OF that(2,5)] gap [OF that(1-3)] by simp
  have fields: "frameCounter ?t = frameCounter s" "scrollSpeed ?t = ?v"
    "length (birdState ?t) = length ?bs"
    using moveBirds_from_fields [of 0 s] by simp_all
  from inv have rest: "0 \<le> frameCounter s" "INITIAL_SPEED \<le> ?v" "?v \<le> MAX_SPEED"
    unfolding spaced_def by simp_all
  from one two fields rest len show ?thesis
    unfolding spaced_def by simp
qed

lemma spaced_one_leaves:
  assumes inv: "spaced c s"
    and j: "j < MAX_BIRDS" "leavesScreen s j" and k: "k < MAX_BIRDS" "leavesScreen s k"
  shows "j = k"
proof (rule ccontr)
  assume "j \<noteq> k"
  with inv j k have "60 \<le> \<bar>bird_y (birdState s ! j) - bird_y (birdState s ! k)\<bar>"
    unfolding spaced_def leavesScreen_def by simp
  moreover from inv j k have
    "bird_y (birdState s ! j) \<le> 128" "bird_y (birdState s ! k) \<le> 128"
    "125 < bird_y (birdState s ! j)" "125 < bird_y (birdState s ! k)"
    unfolding spaced_def leavesScreen_def by (simp_all add: spacing_consts)
  ultimately show False by simp
qed

lemma advanceBirds_spacing:
  assumes inv: "spacingInv s"
  shows "spaced 5 (advanceBirds r s)"
    and "BirdDodger.score (advanceBirds r s) \<le> BirdDodger.score s + 1"
proof -
  let ?s2 = "spawnPeriodically r s"
  have s2: "spaced 6 ?s2"
    using inv by (simp add: spacingInv_def spaced_spawnPeriodically)
  then show "spaced 5 (advanceBirds r s)"
    by (simp add: advanceBirds_def spaced_moveBirds)
  from s2 have len: "length (birdState ?s2) = MAX_BIRDS"
    unfolding spaced_def by simp
  have "\<forall>j k. 0 \<le> j \<and> j < MAX_BIRDS \<and> 0 \<le> k \<and> k < MAX_BIRDS \<and>
      leavesScreen ?s2 j \<and> leavesScreen ?s2 k \<longrightarrow> j = k"
    using spaced_one_leaves [OF s2] by blast
  from moveBirds_from_score_one [OF len this] spawnPeriodically_fields [of r s]
  show "BirdDodger.score (advanceBirds r s) \<le> BirdDodger.score s + 1"
    by (simp add: advanceBirds_def)
qed

lemma increaseDifficulty_speed_bounds:
  assumes "INITIAL_SPEED \<le> scrollSpeed s" and "scrollSpeed s \<le> MAX_SPEED"
  shows "INITIAL_SPEED \<le> scrollSpeed (increaseDifficulty s)"
    and "scrollSpeed (increaseDifficulty s) \<le> MAX_SPEED"
    and "scrollSpeed s \<le> scrollSpeed (increaseDifficulty s)"
  using assms
  by (simp_all add: increaseDifficulty_def INITIAL_SPEED_def MAX_SPEED_def SPEED_INCREMENT_def)

lemma spacingInv_updateGame:
  assumes inv: "spacingInv s"
  shows "spacingInv (BirdDodger_updateGame r a s)"
proof (cases "BirdDodger.gameOver s")
  case True
  with inv show ?thesis by (simp add: BirdDodger_updateGame_def)
next
  case False
  let ?s3 = "advanceBirds r s"
  let ?s5 = "updatePlane a (BirdDodger_checkCollisions ?s3)"
  have s3: "spaced 5 ?s3" using advanceBirds_spacing(1) [OF inv] .
  have eq: "birdState ?s5 = birdState ?s3" "frameCounter ?s5 = frameCounter ?s3"
    "scrollSpeed ?s5 = scrollSpeed ?s3"
    by (simp_all add: updatePlane_fields BirdDodger_checkCollisions_fields)
  from s3 have bounds: "INITIAL_SPEED \<le> scrollSpeed ?s5" "scrollSpeed ?s5 \<le> MAX_SPEED"
    unfolding spaced_def eq by simp_all
  have "spaced 5 (increaseDifficulty ?s5)"
  proof (rule spaced_fields [OF s3])
    show "birdState (increaseDifficulty ?s5) = birdState ?s3"
      by (simp add: increaseDifficulty_fields eq)
    show "frameCounter (increaseDifficulty ?s5) = frameCounter ?s3"
      by (simp add: increaseDifficulty_fields eq)
    show "INITIAL_SPEED \<le> scrollSpeed (increaseDifficulty ?s5)"
      using increaseDifficulty_speed_bounds(1) [OF bounds] .
    show "scrollSpeed (increaseDifficulty ?s5) \<le> MAX_SPEED"
      using increaseDifficulty_speed_bounds(2) [OF bounds] .
  qed
  with False show ?thesis
    by (simp add: spacingInv_def BirdDodger_updateGame_def)
qed

lemma spacingInv_handleInput:
  assumes inv: "spacingInv s"
  shows "spacingInv (BirdDodger_handleInput ev s)"
proof (cases "pressed Select ev \<and> BirdDodger.gameOver s")
  case True
  from inv have len: "length (birdState s) = MAX_BIRDS"
    unfolding spacingInv_def spaced_def by simp
  let ?t = "BirdDodger_handleInput ev s"
  from True BirdDodger_restart [of s ev] len have
    r: "scrollSpeed ?t = INITIAL_SPEED" "frameCounter ?t = 0"
      "\<forall>b \<in> set (birdState ?t). \<not> bird_active b"
    by simp_all
  have len': "length (birdState ?t) = MAX_BIRDS"
    using BirdDodger_call_length [of "Poll ev" s] len by simp
  with r(3) have "\<forall>i < MAX_BIRDS. \<not> bird_active (birdState ?t ! i)"
    by simp
  with r(1,2) len' show ?thesis
    unfolding spacingInv_def spaced_def by (simp add: spacing_consts)
next
  case False
  have "birdState (BirdDodger_handleInput ev s) = birdState s \<and>
      frameCounter (BirdDodger_handleInput ev s) = frameCounter s \<and>
      scrollSpeed (BirdDodger_handleInput ev s) = scrollSpeed s"
    using False
    by (cases ev) (auto simp: BirdDodger_handleInput_def pressed_def)
  with inv show ?thesis
    unfolding spacingInv_def spaced_def by simp
qed

lemma spacingInv_new: "spacingInv BirdDodger_new"
  unfolding spacingInv_def spaced_def
  by (simp add: BirdDodger_new_def spacing_consts)

lemma spacingInv_call:
  assumes "spacingInv s"
  shows "spacingInv (BirdDodger_call c s)"
proof (cases c)
  case (Start a)
  with assms show ?thesis
    unfolding spacingInv_def spaced_def by (simp add: BirdDodger_onStart_def)
next
  case Stop
  with assms show ?thesis
    unfolding spacingInv_def spaced_def by (simp add: BirdDodger_onStop_def)
next
  case (Tick r a)
  with assms show ?thesis by (simp add: spacingInv_updateGame)
next
  case (Poll ev)
  with assms show ?thesis by (simp add: spacingInv_handleInput)
qed

lemma spacingInv_session:
  "spacingInv s \<Longrightarrow> spacingInv (BirdDodger_session cs s)"
  by (induction cs arbitrary: s) (simp_all add: spacingInv_call)


lemma all_less_MAX_BIRDS:
  "(\<forall>i < MAX_BIRDS. P i) \<longleftrightarrow> P 0 \<and> P 1 \<and> P 2 \<and> P 3 \<and> P 4"
proof -
  have "i < MAX_BIRDS \<longleftrightarrow> i = 0 \<or> i = 1 \<or> i = 2 \<or> i = 3 \<or> i = 4" for i
    unfolding MAX_BIRDS_def by linarith
  then show ?thesis by auto
qed








section \<open>Terminal conditions\<close>

lemma collision_tick_keeps_score:
  assumes inv: "spacingInv s" and play: "\<not> BirdDodger.gameOver s"
    and over: "BirdDodger.gameOver (BirdDodger_updateGame r a s)"
  shows "BirdDodger.score (BirdDodger_updateGame r a s) = BirdDodger.score s"
proof -
  let ?s2 = "spawnPeriodically r s"
  let ?s3 = "advanceBirds r s"
  let ?v = "scrollSpeed ?s2"
  let ?p = "planeX ?s3 * real_of_int (SCREEN_WIDTH - PLANE_SIZE)"
  have s2: "spaced 6 ?s2"
    using inv by (simp add: spacingInv_def spaced_spawnPeriodically)
  then have len: "length (birdState ?s2) = MAX_BIRDS" and v: "?v \<le> 3"
    unfolding spaced_def by (simp_all add: spacing_consts)
  have play3: "\<not> BirdDodger.gameOver ?s3"
    using play by (simp add: advanceBirds_fields)
  from over play have "BirdDodger.gameOver (checkBirds_from 0 ?p ?s3)"
    by (simp add: BirdDodger_updateGame_def increaseDifficulty_fields updatePlane_fields
        BirdDodger_checkCollisions_def play3)
  from checkBirds_from_miss [OF this play3] obtain j where
    j: "j < MAX_BIRDS" "bird_active (birdState ?s3 ! j)" "collision ?p (birdState ?s3 ! j)"
    by blast
  have nth: "birdState ?s3 ! j = movedBird ?v (birdState ?s2 ! j)"
    using moveBirds_from_nth [of j ?s2 0] j(1) len by (simp add: advanceBirds_def)
  from j(2) have act: "bird_active (birdState ?s2 ! j)"
    and y: "bird_y (birdState ?s3 ! j) = bird_y (birdState ?s2 ! j) + ?v"
    by (simp_all add: nth movedBird_def split: if_splits)
  from j(3) have hit: "bird_y (birdState ?s3 ! j) < 108"
    by (simp add: collision_def PLANE_Y_def PLANE_SIZE_def)
  have none: "\<forall>k. 0 \<le> k \<and> k < MAX_BIRDS \<longrightarrow> \<not> leavesScreen ?s2 k"
  proof (intro allI impI notI)
    fix k assume k: "0 \<le> k \<and> k < MAX_BIRDS" and leaves: "leavesScreen ?s2 k"
    from leaves have yk: "bird_active (birdState ?s2 ! k)" "128 < bird_y (birdState ?s2 ! k) + ?v"
      by (simp_all add: leavesScreen_def SCREEN_HEIGHT_def)
    with y hit have "k \<noteq> j" by auto
    with s2 k j(1) yk(1) act
    have gap: "60 \<le> \<bar>bird_y (birdState ?s2 ! k) - bird_y (birdState ?s2 ! j)\<bar>"
      unfolding spaced_def by simp
    from s2 k yk(1) have "bird_y (birdState ?s2 ! k) \<le> 128"
      unfolding spaced_def by (simp add: SCREEN_HEIGHT_def)
    moreover from j(3) y have "94 < bird_y (birdState ?s2 ! j) + ?v"
      by (simp add: collision_def PLANE_Y_def BIRD_SIZE_def)
    ultimately show False
      using gap yk(2) y hit v by linarith
  qed
  have "BirdDodger.score ?s3 = BirdDodger.score ?s2"
    using moveBirds_from_score_none [OF len none] by (simp add: advanceBirds_def)
  then show ?thesis
    using play
    by (simp add: BirdDodger_updateGame_def increaseDifficulty_fields updatePlane_fields
        BirdDodger_checkCollisions_fields spawnPeriodically_fields)
qed

lemma spacingInv_dodgerPlaying: "spacingInv dodgerPlaying"
  unfolding spacingInv_def spaced_def all_less_MAX_BIRDS
  by (simp add: dodgerPlaying_def dodgerOver_def spacing_consts MAX_BIRDS_def)

text \<open>
  C2. In a tick that starts in play, a terminal condition ends the game on that tick
  and the transition does not touch the score. Paddle game: when the moved ball is at
  \<open>x \<le> 0\<close> with its \<open>y\<close> outside the paddle's extent, \<^verbatim>\<open>gameOver\<close> is set and the score
  after the tick is the score before it. Dodging game: when, at the call of
  \<^verbatim>\<open>checkCollisions\<close>, the plane's box overlaps the box of some active bird,
  \<^verbatim>\<open>gameOver\<close> is set, and the score after the tick is the score at that call;
  \<^verbatim>\<open>checkCollisions\<close> never changes the score; and in every state of a session (they
  all satisfy \<open>spacingInv\<close>) a tick that ends the game leaves the score at the value
  it had before the tick.
\<close>

theorem terminal_condition_ends_game:
  "(\<not> PongGame.gameOver p \<and> ball_x (ballState (moveBall p)) \<le> 0 \<and>
      \<not> withinPaddle (moveBall p) \<longrightarrow>
      PongGame.gameOver (PongGame_updateGame a p) \<and>
      PongGame.score (PongGame_updateGame a p) = PongGame.score p) \<and>
   (\<not> BirdDodger.gameOver b \<and> j < MAX_BIRDS \<and>
      bird_active (birdState (advanceBirds r b) ! j) \<and>
      collision (planeX b * real_of_int (SCREEN_WIDTH - PLANE_SIZE))
        (birdState (advanceBirds r b) ! j) \<longrightarrow>
      BirdDodger.gameOver (BirdDodger_updateGame r a' b) \<and>
      BirdDodger.score (BirdDodger_updateGame r a' b) = BirdDodger.score (advanceBirds r b)) \<and>
   BirdDodger.score (BirdDodger_checkCollisions b) = BirdDodger.score b \<and>
   spacingInv (BirdDodger_session cs BirdDodger_new) \<and>
   (spacingInv b \<and> \<not> BirdDodger.gameOver b \<and>
      BirdDodger.gameOver (BirdDodger_updateGame r a' b) \<longrightarrow>
      BirdDodger.score (BirdDodger_updateGame r a' b) = BirdDodger.score b)"
proof (intro conjI impI)
  assume "\<not> PongGame.gameOver p \<and> ball_x (ballState (moveBall p)) \<le> 0 \<and>
    \<not> withinPaddle (moveBall p)"
  then show "PongGame.gameOver (PongGame_updateGame a p)"
    and "PongGame.score (PongGame_updateGame a p) = PongGame.score p"
    by (auto simp: pong_tick_defs pong_conds pong_consts Let_def)
next
  assume h: "\<not> BirdDodger.gameOver b \<and> j < MAX_BIRDS \<and>
      bird_active (birdState (advanceBirds r b) ! j) \<and>
      collision (planeX b * real_of_int (SCREEN_WIDTH - PLANE_SIZE))
        (birdState (advanceBirds r b) ! j)"
  have "BirdDodger.gameOver (checkBirds_from 0
      (planeX b * real_of_int (SCREEN_WIDTH - PLANE_SIZE)) (advanceBirds r b))"
    using h by (intro checkBirds_from_hit [of 0 j]) simp_all
  with h show "BirdDodger.gameOver (BirdDodger_updateGame r a' b)"
    by (simp add: BirdDodger_updateGame_def increaseDifficulty_fields updatePlane_fields
        BirdDodger_checkCollisions_def advanceBirds_fields)
  from h show "BirdDodger.score (BirdDodger_updateGame r a' b) =
      BirdDodger.score (advanceBirds r b)"
    by (simp add: BirdDodger_updateGame_def increaseDifficulty_fields updatePlane_fields
        BirdDodger_checkCollisions_fields)
next
  show "BirdDodger.score (BirdDodger_checkCollisions b) = BirdDodger.score b"
    by (simp add: BirdDodger_checkCollisions_fields)
  show "spacingInv (BirdDodger_session cs BirdDodger_new)"
    by (rule spacingInv_session [OF spacingInv_new])
next
  assume "spacingInv b \<and> \<not> BirdDodger.gameOver b \<and>
    BirdDodger.gameOver (BirdDodger_updateGame r a' b)"
  then show "BirdDodger.score (BirdDodger_updateGame r a' b) = BirdDodger.score b"
    using collision_tick_keeps_score [of b r a'] by simp
qed

theorem terminal_condition_ends_game_witness:
  "\<not> PongGame.gameOver pongMissing \<and>
   ball_x (ballState (moveBall pongMissing)) = - 1 / 2 \<and>
   \<not> withinPaddle (moveBall pongMissing) \<and>
   PongGame.gameOver (PongGame_updateGame 0 pongMissing) \<and>
   PongGame.score (PongGame_updateGame 0 pongMissing) = 3 \<and>
   PongGame.score pongMissing = 3 \<and>
   \<not> BirdDodger.gameOver dodgerPlaying \<and>
   (0 :: nat) < MAX_BIRDS \<and>
   birdState (advanceBirds 3 dodgerPlaying) ! 0 =
     \<lparr>bird_x = 30, bird_y = 197 / 2, bird_active = True\<rparr> \<and>
   collision (planeX dodgerPlaying * real_of_int (SCREEN_WIDTH - PLANE_SIZE))
     (birdState (advanceBirds 3 dodgerPlaying) ! 0) \<and>
   BirdDodger.gameOver (BirdDodger_updateGame 3 0 dodgerPlaying) \<and>
   BirdDodger.score (BirdDodger_updateGame 3 0 dodgerPlaying) = 12 \<and>
   spacingInv dodgerPlaying \<and>
   BirdDodger.score dodgerPlaying = 12"
  using terminal_condition_ends_game [of pongMissing 0 dodgerPlaying 0 3 0 "[]"]
    spacingInv_dodgerPlaying
  by (simp add: pongMissing_def pongPlaying_def dodgerPlaying_def dodgerOver_def
      pong_tick_defs pong_conds pong_consts dodger_tick_defs
      checkBirds_from_step dodger_consts)

end
